theory Spec2Isabelle
  imports Main "HOL-Library.Char_ord" "HOL-Library.List_Lexorder"
begin

section \<open>The admin binding of django-fsm-2 (django\_fsm/admin.py)\<close>

text \<open>
  The theory embeds \<^verbatim>\<open>FSMAdminMixin\<close> of \<^verbatim>\<open>src/django_fsm/admin.py\<close>.
  The mixin is glue between Django's admin and the transition engine, so its
  collaborators (the request, the model instance and its methods, the form classes,
  the message framework, persistence) are data of the model:
  \<^item> a Python value that the code only tests for truth is a \<open>pyval\<close>;
  \<^item> an exception is a value of \<open>exn\<close> and a fallible function returns \<open>exn + 'a\<close>;
  \<^item> the instance's mutable data is a type parameter \<open>'d\<close>, and a method of the
    instance is a function from keyword arguments and that data to an outcome and the
    new data (a Python call that raises keeps the mutations made before the raise);
  \<^item> \<^verbatim>\<open>message_user\<close>, \<^verbatim>\<open>obj.save()\<close> and every call of a method of the
    instance append an event to a trace, in the order the code performs them.
\<close>

subsection \<open>Python values and exceptions\<close>

datatype pyval = PNone | PBool bool | PInt int | PStr string

text \<open>Python's truth value testing (\<^verbatim>\<open>if x:\<close>) on these values.\<close>

fun truthy :: "pyval \<Rightarrow> bool" where
  "truthy PNone = False"
| "truthy (PBool b) = b"
| "truthy (PInt n) = (n \<noteq> 0)"
| "truthy (PStr s) = (s \<noteq> [])"

text \<open>
  The exception classes the code names or can meet, each with the text \<^verbatim>\<open>str(err)\<close>
  gives. \<open>OtherError cls text\<close> is an exception of any other class. An
  \<^verbatim>\<open>except C\<close> clause catches the subclasses of \<open>C\<close> too, so a constructor stands
  for its class and the subclasses of it.
\<close>

datatype exn =
    TransitionNotAllowed string
  | ConcurrentTransition string
  | TypeError string
  | AttributeError string
  | IndexError string
  | OtherError string string

fun is_TransitionNotAllowed :: "exn \<Rightarrow> bool" where
  "is_TransitionNotAllowed (TransitionNotAllowed _) = True"
| "is_TransitionNotAllowed _ = False"

fun is_ConcurrentTransition :: "exn \<Rightarrow> bool" where
  "is_ConcurrentTransition (ConcurrentTransition _) = True"
| "is_ConcurrentTransition _ = False"

fun is_TypeError :: "exn \<Rightarrow> bool" where
  "is_TypeError (TypeError _) = True"
| "is_TypeError _ = False"

text \<open>\<^verbatim>\<open>str(err)\<close>.\<close>

fun str_exn :: "exn \<Rightarrow> string" where
  "str_exn (TransitionNotAllowed s) = s"
| "str_exn (ConcurrentTransition s) = s"
| "str_exn (TypeError s) = s"
| "str_exn (AttributeError s) = s"
| "str_exn (IndexError s) = s"
| "str_exn (OtherError _ s) = s"

subsection \<open>Requests, keyword arguments, events\<close>

text \<open>
  \<^verbatim>\<open>HttpRequest\<close>: the fields the mixin reads. \<open>POST\<close> lists, for each key of the
  query dictionary, the value \<^verbatim>\<open>request.POST.get(key)\<close> returns.
\<close>

record request =
  http_method :: string
  path :: string
  POST :: "(string \<times> string) list"
  user :: string

text \<open>\<^verbatim>\<open>d.get(key)\<close> on a dictionary held as an association list.\<close>

definition dict_get :: "(string \<times> 'v) list \<Rightarrow> string \<Rightarrow> 'v option" where
  "dict_get d k = map_of d k"

datatype argval = ArgRequest request | ArgUser string | ArgVal pyval

type_synonym kwargs = "(string \<times> argval) list"

datatype level = INFO | SUCCESS | ERROR

datatype event =
    Called string kwargs
  | Saved
  | Message level string

text \<open>The state a request handler threads: the instance's data and the trace.\<close>

record 'd world =
  inst :: 'd
  trace :: "event list"

subsection \<open>Transitions, forms and the attributes of the instance\<close>

text \<open>
  A form class (\<^verbatim>\<open>custom["form"]\<close>): \<open>clean post d\<close> stands for binding the form
  to the POST data and the instance and calling \<^verbatim>\<open>is_valid()\<close>. It returns
  \<^verbatim>\<open>cleaned_data\<close> when the form is valid and \<open>None\<close> when it is not, with the
  instance's data after validation (a model form writes cleaned values to it).
\<close>

record 'd form_class =
  form_name :: string
  clean :: "(string \<times> string) list \<Rightarrow> 'd \<Rightarrow> (string \<times> pyval) list option \<times> 'd"

text \<open>A value of the \<^verbatim>\<open>custom\<close> mapping: plain data or a form class.\<close>

datatype 'd custom_val = Val pyval | FormClass "'d form_class"

fun truthy_custom :: "'d custom_val \<Rightarrow> bool" where
  "truthy_custom (Val v) = truthy v"
| "truthy_custom (FormClass _) = True"

datatype source_state = WILDCARD | StateValue pyval

text \<open>
  \<^verbatim>\<open>fsm.Transition\<close>, the transition descriptor: of its attributes the mixin reads
  \<^verbatim>\<open>custom\<close> only; \<open>name\<close> and \<open>source\<close> identify the descriptor.
\<close>

record 'd transition =
  name :: string
  source :: source_state
  custom :: "(string \<times> 'd custom_val) list"

text \<open>
  \<^verbatim>\<open>transition_func._django_fsm\<close>, the metadata of a transition method. The class is
  defined in \<^verbatim>\<open>django_fsm/__init__.py\<close>, so what the mixin calls on it is a parameter:
  \<open>get_state\<close> is \<^verbatim>\<open>fsm_meta.field.get_state(instance)\<close>, \<open>get_transition\<close> is
  \<^verbatim>\<open>fsm_meta.get_transition(current_state)\<close> (\<open>None\<close> is Python's \<^verbatim>\<open>None\<close>), and
  \<open>transitions\<close> is \<^verbatim>\<open>fsm_meta.transitions\<close>, the descriptors in registration order
  (the values of the dictionary when it is one).
\<close>

record 'd fsm_meta =
  get_state :: "'d \<Rightarrow> exn + pyval"
  get_transition :: "pyval \<Rightarrow> exn + 'd transition option"
  transitions :: "'d transition list"

text \<open>What a method of the instance returns.\<close>

datatype 'd retval = RVal pyval | RTransitions "'d transition list"

text \<open>
  An attribute of the instance, as \<^verbatim>\<open>getattr(obj, name)\<close> finds it: a plain value, or
  a method with its \<^verbatim>\<open>_django_fsm\<close> metadata when it is a transition method.
\<close>

datatype 'd attr =
    Value pyval
  | Method "'d fsm_meta option" "kwargs \<Rightarrow> 'd \<Rightarrow> (exn + 'd retval) \<times> 'd"

record 'd pyobj =
  pk :: pyval
  obj_id :: pyval
  attrs :: "string \<Rightarrow> 'd attr option"
  save_method :: "'d \<Rightarrow> exn option \<times> 'd"

text \<open>
  The model instance: \<open>pk\<close> and \<open>obj_id\<close> are \<^verbatim>\<open>obj.pk\<close> and \<^verbatim>\<open>obj.id\<close>;
  \<open>attrs\<close> is the attribute lookup; \<open>save_method\<close> is what \<^verbatim>\<open>obj.save()\<close> does
  to the instance's data, with the exception it raises (\<open>None\<close>: it returns).
  \<^verbatim>\<open>getattr(obj, name)\<close> with no default:
\<close>

definition getattr :: "'d pyobj \<Rightarrow> string \<Rightarrow> exn + 'd attr" where
  "getattr obj nm =
     (case attrs obj nm of
        None \<Rightarrow> Inl (AttributeError nm)
      | Some a \<Rightarrow> Inr a)"

text \<open>\<^verbatim>\<open>hasattr(transition_func, "_django_fsm")\<close> and the attribute itself.\<close>

fun django_fsm :: "'d attr \<Rightarrow> 'd fsm_meta option" where
  "django_fsm (Value _) = None"
| "django_fsm (Method m _) = m"

text \<open>
  Calling an attribute with keyword arguments: a value that is not callable raises
  \<^verbatim>\<open>TypeError\<close>; a method runs on the instance's data, and the call is recorded.
\<close>

fun call :: "string \<Rightarrow> 'd attr \<Rightarrow> kwargs \<Rightarrow> 'd world \<Rightarrow> (exn + 'd retval) \<times> 'd world" where
  "call nm (Value v) kw w = (Inl (TypeError ''object is not callable''), w)"
| "call nm (Method m body) kw w =
     (case body kw (inst w) of
        (r, d) \<Rightarrow> (r, \<lparr>inst = d, trace = trace w @ [Called nm kw]\<rparr>))"

text \<open>\<^verbatim>\<open>d.get(key, default)\<close>.\<close>

definition dict_get_default :: "(string \<times> 'v) list \<Rightarrow> string \<Rightarrow> 'v \<Rightarrow> 'v" where
  "dict_get_default d k dflt = (case dict_get d k of None \<Rightarrow> dflt | Some v \<Rightarrow> v)"

subsection \<open>Responses\<close>

datatype url = Url string | NamedUrl string "(string \<times> pyval) list"

text \<open>A form instance: the class, and the data it is bound to (\<open>None\<close>: unbound).\<close>

record 'd form_instance =
  form_of :: "'d form_class"
  form_data :: "(string \<times> string) list option"

text \<open>
  The context of the transition form page, without \<^verbatim>\<open>each_context\<close> and
  \<^verbatim>\<open>opts\<close>: \<open>original\<close> is the instance's data when the page is rendered.
\<close>

record 'd form_context =
  original :: 'd
  ctx_transition :: "'d transition"
  transition_form :: "'d form_instance"

datatype 'd response =
    HttpResponseRedirect url
  | HttpResponseBadRequest string
  | Render string "'d form_context"
  | HttpResponse string

subsection \<open>The admin class\<close>

text \<open>\<^verbatim>\<open>django.conf.settings\<close>: the one setting the module reads, \<open>None\<close> when unset.\<close>

record django_settings =
  FSM_ADMIN_FORCE_PERMIT :: "pyval option"

text \<open>A model field: \<open>protected\<close> is \<open>None\<close> when the field has no such attribute.\<close>

record model_field =
  protected :: "pyval option"

text \<open>
  An admin class that mixes \<^verbatim>\<open>FSMAdminMixin\<close> in. \<open>get_field\<close> is
  \<^verbatim>\<open>self.model._meta.get_field\<close> (\<open>None\<close>: it raises \<^verbatim>\<open>FieldDoesNotExist\<close>); the
  fields named \<open>super_\<close> are the methods of the superclass; \<open>import_string\<close>,
  \<open>get_preserved_filters\<close> and \<open>add_preserved_filters\<close> are Django's.
\<close>

record 'd fsm_admin =
  settings :: django_settings
  fsm_fields :: "string list"
  app_label :: string
  model_name :: string
  get_field :: "string \<Rightarrow> model_field option"
  super_get_readonly_fields :: "request \<Rightarrow> string list"
  super_response_change :: "request \<Rightarrow> 'd world \<Rightarrow> (exn + 'd response) \<times> 'd world"
  import_string :: "string \<Rightarrow> exn + 'd custom_val"
  get_preserved_filters :: "request \<Rightarrow> string"
  add_preserved_filters :: "string \<Rightarrow> string \<Rightarrow> string"

text \<open>The class attributes, with the values the mixin gives them.\<close>

definition quoted :: "string \<Rightarrow> string" where
  "quoted s = [CHR 0x27] @ s @ [CHR 0x27]"

definition fsm_transition_success_msg :: "string \<Rightarrow> string" where
  "fsm_transition_success_msg transition_name =
     ''FSM transition '' @ quoted transition_name @ '' succeeded.''"

definition fsm_transition_error_msg :: "string \<Rightarrow> string \<Rightarrow> string" where
  "fsm_transition_error_msg transition_name err =
     ''FSM transition '' @ quoted transition_name @ '' failed: '' @ err @ ''.''"

definition fsm_transition_not_allowed_msg :: "string \<Rightarrow> string" where
  "fsm_transition_not_allowed_msg transition_name =
     ''FSM transition '' @ quoted transition_name @ '' is not allowed.''"

definition fsm_transition_not_valid_msg :: "string \<Rightarrow> string" where
  "fsm_transition_not_valid_msg transition_name =
     ''FSM transition '' @ quoted transition_name @ '' is not a valid.''"

definition fsm_post_param :: string where
  "fsm_post_param = ''_fsm_transition_to''"

definition fsm_transition_form_template :: string where
  "fsm_transition_form_template = ''django_fsm/fsm_admin_transition_form.html''"

text \<open>\<^verbatim>\<open>not getattr(settings, "FSM_ADMIN_FORCE_PERMIT", False)\<close>.\<close>

definition default_disallow_transition :: "django_settings \<Rightarrow> bool" where
  "default_disallow_transition st =
     (\<not> truthy (case FSM_ADMIN_FORCE_PERMIT st of None \<Rightarrow> PBool False | Some v \<Rightarrow> v))"

text \<open>
  The two effects on the collaborators. \<^verbatim>\<open>self.message_user\<close> leaves the message in
  the trace. \<^verbatim>\<open>obj.save()\<close> leaves \<open>Saved\<close> in the trace when it is called, and then
  returns or raises as \<open>save_method\<close> says: the persistence layer can refuse the write,
  as the library's \<^verbatim>\<open>ConcurrentTransitionMixin\<close> does with \<^verbatim>\<open>ConcurrentTransition\<close>.
\<close>

definition message_user :: "level \<Rightarrow> string \<Rightarrow> 'd world \<Rightarrow> 'd world" where
  "message_user lv msg w = w\<lparr>trace := trace w @ [Message lv msg]\<rparr>"

definition save :: "'d pyobj \<Rightarrow> 'd world \<Rightarrow> (exn + unit) \<times> 'd world" where
  "save obj w =
     (case save_method obj (inst w) of
        (None, d) \<Rightarrow> (Inr (), \<lparr>inst = d, trace = trace w @ [Saved]\<rparr>)
      | (Some e, d) \<Rightarrow> (Inl e, \<lparr>inst = d, trace = trace w @ [Saved]\<rparr>))"

subsection \<open>\<^verbatim>\<open>get_readonly_fields\<close>\<close>

text \<open>
  The loop over \<^verbatim>\<open>self.fsm_fields\<close>, with the tuple \<^verbatim>\<open>read_only_fields\<close> as an
  accumulator: a name already in the tuple is skipped, a name that is not a field of the
  model is passed over, and the name of a field whose \<^verbatim>\<open>protected\<close> is true is
  appended.
\<close>

fun readonly_loop :: "'d fsm_admin \<Rightarrow> string list \<Rightarrow> string list \<Rightarrow> string list" where
  "readonly_loop self [] read_only_fields = read_only_fields"
| "readonly_loop self (fsm_field_name # rest) read_only_fields =
     (if fsm_field_name \<in> set read_only_fields then readonly_loop self rest read_only_fields
      else
        (case get_field self fsm_field_name of
           None \<Rightarrow> readonly_loop self rest read_only_fields
         | Some fld \<Rightarrow>
             if truthy (case protected fld of None \<Rightarrow> PBool False | Some v \<Rightarrow> v)
             then readonly_loop self rest (read_only_fields @ [fsm_field_name])
             else readonly_loop self rest read_only_fields))"

definition get_readonly_fields :: "'d fsm_admin \<Rightarrow> request \<Rightarrow> string list" where
  "get_readonly_fields self req =
     readonly_loop self (fsm_fields self) (super_get_readonly_fields self req)"

subsection \<open>\<^verbatim>\<open>_get_fsm_object_transitions\<close>\<close>

record 'd FSMObjectTransition =
  fsm_field :: string
  available_transitions :: "'d transition list"

text \<open>Truth value of an attribute (\<^verbatim>\<open>if func := getattr(...)\<close>): a method is true.\<close>

fun truthy_attr :: "'d attr \<Rightarrow> bool" where
  "truthy_attr (Value v) = truthy v"
| "truthy_attr (Method _ _) = True"

text \<open>
  \<^verbatim>\<open>t.custom.get("admin", self.default_disallow_transition)\<close>, tested for truth.
\<close>

definition admin_allowed :: "'d fsm_admin \<Rightarrow> 'd transition \<Rightarrow> bool" where
  "admin_allowed self t =
     truthy_custom
       (dict_get_default (custom t) ''admin''
          (Val (PBool (default_disallow_transition (settings self)))))"

text \<open>
  The generator, run to its end over the sorted field names. A result of the method that
  is not a sequence of transitions fails as the comprehension does in Python: a value
  that cannot be iterated raises \<^verbatim>\<open>TypeError\<close>, a character of a string has no
  \<^verbatim>\<open>custom\<close>.
\<close>

fun object_transitions_loop ::
  "'d fsm_admin \<Rightarrow> request \<Rightarrow> 'd pyobj \<Rightarrow> string list \<Rightarrow> 'd world \<Rightarrow>
     (exn + 'd FSMObjectTransition list) \<times> 'd world" where
  "object_transitions_loop self req obj [] w = (Inr [], w)"
| "object_transitions_loop self req obj (field_name # rest) w =
     (case getattr obj (''get_available_user_'' @ field_name @ ''_transitions'') of
        Inl e \<Rightarrow> (Inl e, w)
      | Inr func \<Rightarrow>
          if truthy_attr func then
            (case call (''get_available_user_'' @ field_name @ ''_transitions'') func
                    [(''user'', ArgUser (user req))] w of
               (Inl e, w') \<Rightarrow> (Inl e, w')
             | (Inr (RVal (PStr [])), w') \<Rightarrow>
                 (case object_transitions_loop self req obj rest w' of
                    (Inl e, w'') \<Rightarrow> (Inl e, w'')
                  | (Inr others, w'') \<Rightarrow>
                      (Inr (\<lparr>fsm_field = field_name, available_transitions = []\<rparr> # others), w''))
             | (Inr (RVal (PStr (c # cs))), w') \<Rightarrow> (Inl (AttributeError ''custom''), w')
             | (Inr (RVal _), w') \<Rightarrow> (Inl (TypeError ''object is not iterable''), w')
             | (Inr (RTransitions ts), w') \<Rightarrow>
                 (case object_transitions_loop self req obj rest w' of
                    (Inl e, w'') \<Rightarrow> (Inl e, w'')
                  | (Inr others, w'') \<Rightarrow>
                      (Inr (\<lparr>fsm_field = field_name,
                             available_transitions = filter (admin_allowed self) ts\<rparr> # others),
                       w'')))
          else object_transitions_loop self req obj rest w)"

definition get_fsm_object_transitions ::
  "'d fsm_admin \<Rightarrow> request \<Rightarrow> 'd pyobj \<Rightarrow> 'd world \<Rightarrow>
     (exn + 'd FSMObjectTransition list) \<times> 'd world" where
  "get_fsm_object_transitions self req obj w =
     object_transitions_loop self req obj (sort (fsm_fields self)) w"

subsection \<open>\<^verbatim>\<open>response_change\<close> and its helpers\<close>

definition get_fsm_redirect_url :: "request \<Rightarrow> string" where
  "get_fsm_redirect_url req = path req"

definition get_fsm_response :: "'d fsm_admin \<Rightarrow> request \<Rightarrow> 'd response" where
  "get_fsm_response self req =
     HttpResponseRedirect
       (Url (add_preserved_filters self (get_preserved_filters self req)
               (get_fsm_redirect_url req)))"

definition get_fsm_transition :: "'d \<Rightarrow> 'd attr \<Rightarrow> exn + 'd transition option" where
  "get_fsm_transition instance transition_func =
     (case django_fsm transition_func of
        None \<Rightarrow> Inr None
      | Some fsm_meta \<Rightarrow>
          (case get_state fsm_meta instance of
             Inl e \<Rightarrow> Inl e
           | Inr current_state \<Rightarrow> get_transition fsm_meta current_state))"

text \<open>\<^verbatim>\<open>getattr(self.get_fsm_transition(...), "custom", {})\<close>.\<close>

definition get_fsm_transition_custom ::
  "'d \<Rightarrow> 'd attr \<Rightarrow> exn + (string \<times> 'd custom_val) list" where
  "get_fsm_transition_custom instance transition_func =
     (case get_fsm_transition instance transition_func of
        Inl e \<Rightarrow> Inl e
      | Inr None \<Rightarrow> Inr []
      | Inr (Some t) \<Rightarrow> Inr (custom t))"

definition get_fsm_transition_form :: "'d fsm_admin \<Rightarrow> 'd transition \<Rightarrow> exn + 'd custom_val" where
  "get_fsm_transition_form self t =
     (case dict_get_default (custom t) ''form'' (Val PNone) of
        Val (PStr s) \<Rightarrow> import_string self s
      | form \<Rightarrow> Inr form)"

text \<open>
  The loop over the three argument shapes (lines 145 to 155): \<^verbatim>\<open>TypeError\<close> from an
  attempt is passed over, any other exception leaves the loop, and a normal return
  breaks it. When the list is used up the loop ends without an exception.
\<close>

fun try_shapes :: "string \<Rightarrow> 'd attr \<Rightarrow> kwargs list \<Rightarrow> 'd world \<Rightarrow> (exn + unit) \<times> 'd world" where
  "try_shapes nm transition_func [] w = (Inr (), w)"
| "try_shapes nm transition_func (kw # rest) w =
     (case call nm transition_func kw w of
        (Inl e, w') \<Rightarrow>
          if is_TypeError e then try_shapes nm transition_func rest w' else (Inl e, w')
      | (Inr _, w') \<Rightarrow> (Inr (), w'))"

definition arg_shapes :: "request \<Rightarrow> kwargs list" where
  "arg_shapes req =
     [[(''request'', ArgRequest req), (''by'', ArgUser (user req))],
      [(''by'', ArgUser (user req))],
      []]"

text \<open>
  The body of the outer \<^verbatim>\<open>try\<close> (lines 144 to 157). With the plugin detected the
  list of the three \<^verbatim>\<open>partial\<close> objects is built first: \<^verbatim>\<open>functools.partial\<close>
  raises \<^verbatim>\<open>TypeError\<close> for a first argument that is not callable, before the loop and
  outside its inner \<^verbatim>\<open>try\<close>.
\<close>

definition invoke_transition ::
  "bool \<Rightarrow> request \<Rightarrow> string \<Rightarrow> 'd attr \<Rightarrow> 'd world \<Rightarrow> (exn + unit) \<times> 'd world" where
  "invoke_transition FSM_LOG_ENABLED req nm transition_func w =
     (if FSM_LOG_ENABLED then
        (case transition_func of
           Value v \<Rightarrow> (Inl (TypeError ''the first argument must be callable''), w)
         | Method m body \<Rightarrow> try_shapes nm transition_func (arg_shapes req) w)
      else
        (case call nm transition_func [] w of
           (Inl e, w') \<Rightarrow> (Inl e, w')
         | (Inr _, w') \<Rightarrow> (Inr (), w')))"

definition transition_view_url :: "'d fsm_admin \<Rightarrow> 'd pyobj \<Rightarrow> string \<Rightarrow> url" where
  "transition_view_url self obj transition_name =
     NamedUrl (''admin:'' @ app_label self @ ''_'' @ model_name self @ ''_transition'')
       [(''object_id'', pk obj), (''transition_name'', PStr transition_name)]"

definition response_change ::
  "bool \<Rightarrow> 'd fsm_admin \<Rightarrow> request \<Rightarrow> 'd pyobj \<Rightarrow> 'd world \<Rightarrow> (exn + 'd response) \<times> 'd world" where
  "response_change FSM_LOG_ENABLED self req obj w =
     (case dict_get (POST req) fsm_post_param of
        None \<Rightarrow> super_response_change self req w
      | Some transition_name \<Rightarrow>
          if transition_name = [] then super_response_change self req w
          else
            (case getattr obj transition_name of
               Inl e \<Rightarrow>
                 (Inr (get_fsm_response self req),
                  message_user ERROR (fsm_transition_not_valid_msg transition_name) w)
             | Inr transition_func \<Rightarrow>
                 (case get_fsm_transition_custom (inst w) transition_func of
                    Inl e \<Rightarrow> (Inl e, w)
                  | Inr cust \<Rightarrow>
                      if truthy_custom (dict_get_default cust ''form'' (Val PNone))
                      then (Inr (HttpResponseRedirect (transition_view_url self obj transition_name)), w)
                      else
                        (case invoke_transition FSM_LOG_ENABLED req transition_name transition_func w of
                           (Inl e, w') \<Rightarrow>
                             if is_TransitionNotAllowed e then
                               (Inr (get_fsm_response self req),
                                message_user ERROR
                                  (fsm_transition_not_allowed_msg transition_name) w')
                             else if is_ConcurrentTransition e then
                               (Inr (get_fsm_response self req),
                                message_user ERROR
                                  (fsm_transition_error_msg transition_name (str_exn e)) w')
                             else (Inl e, w')
                         | (Inr _, w') \<Rightarrow>
                             (case save obj w' of
                                (Inl e, w'') \<Rightarrow> (Inl e, w'')
                              | (Inr _, w'') \<Rightarrow>
                                  (Inr (get_fsm_response self req),
                                   message_user INFO
                                     (fsm_transition_success_msg transition_name) w''))))))"

subsection \<open>\<^verbatim>\<open>fsm_transition_view\<close>\<close>

definition change_view_url :: "'d fsm_admin \<Rightarrow> 'd pyobj \<Rightarrow> url" where
  "change_view_url self obj =
     NamedUrl (''admin:'' @ app_label self @ ''_'' @ model_name self @ ''_change'')
       [(''object_id'', obj_id obj)]"

text \<open>\<^verbatim>\<open>transition_method(**transition_form.cleaned_data)\<close>: the dictionary as keywords.\<close>

definition kwargs_of :: "(string \<times> pyval) list \<Rightarrow> kwargs" where
  "kwargs_of cleaned_data = map (\<lambda>(k, v). (k, ArgVal v)) cleaned_data"

text \<open>
  The view, given the object \<^verbatim>\<open>self.get_object\<close> found. Calling a true value of
  \<^verbatim>\<open>custom["form"]\<close> that is not a class raises \<^verbatim>\<open>TypeError\<close>.
\<close>

definition fsm_transition_view ::
  "'d fsm_admin \<Rightarrow> request \<Rightarrow> string \<Rightarrow> 'd pyobj \<Rightarrow> 'd world \<Rightarrow> (exn + 'd response) \<times> 'd world" where
  "fsm_transition_view self req transition_name obj w =
     (case getattr obj transition_name of
        Inl e \<Rightarrow> (Inl e, w)
      | Inr transition_method \<Rightarrow>
          (case django_fsm transition_method of
             None \<Rightarrow>
               (Inr (HttpResponseBadRequest (transition_name @ '' is not a transition method'')), w)
           | Some fsm_meta \<Rightarrow>
               (case transitions fsm_meta of
                  [] \<Rightarrow> (Inl (IndexError ''list index out of range''), w)
                | t # _ \<Rightarrow>
                    (case get_fsm_transition_form self t of
                       Inl e \<Rightarrow> (Inl e, w)
                     | Inr TransitionForm \<Rightarrow>
                         if truthy_custom TransitionForm then
                           (case TransitionForm of
                              Val _ \<Rightarrow> (Inl (TypeError ''object is not callable''), w)
                            | FormClass fc \<Rightarrow>
                                if http_method req = ''POST'' then
                                  (case clean fc (POST req) (inst w) of
                                     (Some cleaned_data, d) \<Rightarrow>
                                       (case call transition_name transition_method
                                               (kwargs_of cleaned_data) (w\<lparr>inst := d\<rparr>) of
                                          (Inl e, w') \<Rightarrow> (Inl e, w')
                                        | (Inr _, w') \<Rightarrow>
                                            (case save obj w' of
                                               (Inl e, w'') \<Rightarrow> (Inl e, w'')
                                             | (Inr _, w'') \<Rightarrow>
                                                 (Inr (HttpResponseRedirect
                                                         (change_view_url self obj)),
                                                  w'')))
                                   | (None, d) \<Rightarrow>
                                       (Inr (Render fsm_transition_form_template
                                               \<lparr>original = d, ctx_transition = t,
                                                transition_form =
                                                  \<lparr>form_of = fc, form_data = Some (POST req)\<rparr>\<rparr>),
                                        w\<lparr>inst := d\<rparr>))
                                else
                                  (Inr (Render fsm_transition_form_template
                                          \<lparr>original = inst w, ctx_transition = t,
                                           transition_form = \<lparr>form_of = fc, form_data = None\<rparr>\<rparr>),
                                   w))
                         else
                           (case call transition_name transition_method [] w of
                              (Inl e, w') \<Rightarrow>
                                if is_TransitionNotAllowed e then
                                  (Inr (HttpResponseRedirect (change_view_url self obj)),
                                   message_user ERROR
                                     (fsm_transition_not_allowed_msg transition_name) w')
                                else (Inl e, w')
                            | (Inr _, w') \<Rightarrow>
                                (case save obj w' of
                                   (Inl e, w'') \<Rightarrow> (Inl e, w'')
                                 | (Inr _, w'') \<Rightarrow>
                                     (Inr (HttpResponseRedirect (change_view_url self obj)),
                                      message_user SUCCESS
                                        (fsm_transition_success_msg transition_name) w'')))))))"

subsection \<open>Reading a trace\<close>

text \<open>The method calls recorded in a trace, in order.\<close>

fun calls_of :: "event list \<Rightarrow> (string \<times> kwargs) list" where
  "calls_of [] = []"
| "calls_of (Called nm kw # es) = (nm, kw) # calls_of es"
| "calls_of (Saved # es) = calls_of es"
| "calls_of (Message lv msg # es) = calls_of es"

text \<open>Whether an outcome is a raised \<^verbatim>\<open>TypeError\<close>.\<close>

fun raises_TypeError :: "exn + 'a \<Rightarrow> bool" where
  "raises_TypeError (Inl e) = is_TypeError e"
| "raises_TypeError (Inr _) = False"

subsection \<open>Resolution of a descriptor\<close>

text \<open>
  Modelled from the spec: \<^verbatim>\<open>resolve(name, current_state)\<close> of the transition registry
  (section 4.2), which is defined in \<^verbatim>\<open>django_fsm/__init__.py\<close> and is not among the
  sources. It scans the descriptors registered for a name, in registration order, and
  returns the first whose source equals the current state or is the wildcard; it fails
  with \<^verbatim>\<open>InvalidTransition\<close> when no descriptor matches.
\<close>

fun resolve :: "'d transition list \<Rightarrow> pyval \<Rightarrow> exn + 'd transition" where
  "resolve [] current_state = Inl (OtherError ''InvalidTransition'' [])"
| "resolve (t # ts) current_state =
     (if source t = StateValue current_state \<or> source t = WILDCARD then Inr t
      else resolve ts current_state)"

subsection \<open>Example objects\<close>

text \<open>
  A blog post whose state is a string, with transition methods in the style of the test
  application: \<open>publish\<close> leaves \<open>reviewed\<close>, \<open>guarded\<close> has a condition that
  fails, \<open>racing\<close> loses a concurrent update, \<open>logged\<close> takes the keyword \<open>by\<close>
  only, \<open>broken\<close> raises \<^verbatim>\<open>TypeError\<close> in its body, \<open>picky\<close> takes
  \<open>by\<close> only and then raises \<^verbatim>\<open>ValueError\<close>, \<open>rename\<close> asks for a form;
  \<open>delete\<close> is a method that is no transition and \<open>title\<close> is a plain attribute.
  \<open>edit\<close> has two descriptors, for the states \<open>draft\<close> and \<open>reviewed\<close>, each
  with a form of its own; \<open>approve\<close> has two descriptors too, and only the one for
  \<open>reviewed\<close> asks for a form.
  \<open>get_available_user_state_transitions\<close> offers three transitions: one with no
  \<^verbatim>\<open>admin\<close> entry, one with a false and one with a true entry;
  \<open>get_available_user_step_transitions\<close> offers two.
\<close>

definition ex_meta :: "string transition list \<Rightarrow> string fsm_meta" where
  "ex_meta ts =
     \<lparr>get_state = (\<lambda>d. Inr (PStr d)),
      get_transition = (\<lambda>cs. case resolve ts cs of Inl e \<Rightarrow> Inl e | Inr t \<Rightarrow> Inr (Some t)),
      transitions = ts\<rparr>"

definition ex_rename_form :: "string form_class" where
  "ex_rename_form =
     \<lparr>form_name = ''AdminBlogPostRenameForm'',
      clean = (\<lambda>post d. case map_of post ''title'' of
                 None \<Rightarrow> (None, d)
               | Some v \<Rightarrow> if v = [] then (None, d) else (Some [(''title'', PStr v)], d))\<rparr>"

definition ex_publish :: "string attr" where
  "ex_publish =
     Method (Some (ex_meta [\<lparr>name = ''publish'', source = StateValue (PStr ''reviewed''), custom = []\<rparr>]))
       (\<lambda>kw d. if kw = [] then (Inr (RVal PNone), ''published'')
                else (Inl (TypeError ''unexpected keyword argument''), d))"

definition ex_guarded :: "string attr" where
  "ex_guarded =
     Method (Some (ex_meta [\<lparr>name = ''guarded'', source = WILDCARD, custom = []\<rparr>]))
       (\<lambda>kw d. (Inl (TransitionNotAllowed ''conditions not met''), d))"

definition ex_racing :: "string attr" where
  "ex_racing =
     Method (Some (ex_meta [\<lparr>name = ''racing'', source = WILDCARD, custom = []\<rparr>]))
       (\<lambda>kw d. (Inl (ConcurrentTransition ''state has changed''), d))"

definition ex_logged :: "string attr" where
  "ex_logged =
     Method (Some (ex_meta [\<lparr>name = ''logged'', source = WILDCARD, custom = []\<rparr>]))
       (\<lambda>kw d. if map fst kw = [''by''] then (Inr (RVal PNone), ''hidden'')
                else (Inl (TypeError ''unexpected keyword argument''), d))"

definition ex_broken :: "string attr" where
  "ex_broken =
     Method (Some (ex_meta [\<lparr>name = ''broken'', source = WILDCARD, custom = []\<rparr>]))
       (\<lambda>kw d. (Inl (TypeError ''unsupported operand''), d))"

definition ex_failing :: "string attr" where
  "ex_failing =
     Method (Some (ex_meta [\<lparr>name = ''failing'', source = WILDCARD, custom = []\<rparr>]))
       (\<lambda>kw d. (Inl (OtherError ''ValueError'' ''bad value''), d))"

definition ex_picky :: "string attr" where
  "ex_picky =
     Method (Some (ex_meta [\<lparr>name = ''picky'', source = WILDCARD, custom = []\<rparr>]))
       (\<lambda>kw d. if map fst kw = [''by''] then (Inl (OtherError ''ValueError'' ''bad value''), d)
                else (Inl (TypeError ''unexpected keyword argument''), d))"

definition ex_rename :: "string attr" where
  "ex_rename =
     Method (Some (ex_meta [\<lparr>name = ''rename'', source = WILDCARD,
                            custom = [(''form'', FormClass ex_rename_form)]\<rparr>]))
       (\<lambda>kw d. (Inr (RVal PNone), d))"

definition ex_delete :: "string attr" where
  "ex_delete = Method None (\<lambda>kw d. (Inr (RVal PNone), ''deleted''))"

definition ex_review_form :: "string form_class" where
  "ex_review_form =
     \<lparr>form_name = ''AdminBlogPostReviewForm'',
      clean = (\<lambda>post d. (Some [], d))\<rparr>"

definition ex_edit_draft :: "string transition" where
  "ex_edit_draft =
     \<lparr>name = ''edit'', source = StateValue (PStr ''draft''),
      custom = [(''form'', FormClass ex_rename_form)]\<rparr>"

definition ex_edit_reviewed :: "string transition" where
  "ex_edit_reviewed =
     \<lparr>name = ''edit'', source = StateValue (PStr ''reviewed''),
      custom = [(''form'', FormClass ex_review_form)]\<rparr>"

definition ex_approve :: "string attr" where
  "ex_approve =
     Method (Some (ex_meta
                [\<lparr>name = ''approve'', source = StateValue (PStr ''draft''), custom = []\<rparr>,
                 \<lparr>name = ''approve'', source = StateValue (PStr ''reviewed''),
                  custom = [(''form'', FormClass ex_review_form)]\<rparr>]))
       (\<lambda>kw d. (Inr (RVal PNone), ''approved''))"

definition ex_edit :: "string attr" where
  "ex_edit =
     Method (Some (ex_meta [ex_edit_draft, ex_edit_reviewed]))
       (\<lambda>kw d. (Inr (RVal PNone), d))"

definition ex_transitions :: "string transition list" where
  "ex_transitions =
     [\<lparr>name = ''publish'', source = StateValue (PStr ''reviewed''), custom = []\<rparr>,
      \<lparr>name = ''secret'', source = WILDCARD, custom = [(''admin'', Val (PBool False))]\<rparr>,
      \<lparr>name = ''moderate'', source = WILDCARD, custom = [(''admin'', Val (PBool True))]\<rparr>]"

definition ex_available :: "string attr" where
  "ex_available = Method None (\<lambda>kw d. (Inr (RTransitions ex_transitions), d))"

definition ex_step_transitions :: "string transition list" where
  "ex_step_transitions =
     [\<lparr>name = ''next_step'', source = WILDCARD, custom = [(''admin'', Val (PInt 0))]\<rparr>,
      \<lparr>name = ''skip'', source = WILDCARD, custom = [(''label'', Val (PStr ''Skip''))]\<rparr>]"

definition ex_available_step :: "string attr" where
  "ex_available_step = Method None (\<lambda>kw d. (Inr (RTransitions ex_step_transitions), d))"

definition ex_avail :: "string \<Rightarrow> string transition list" where
  "ex_avail field_name = (if field_name = ''step'' then ex_step_transitions else ex_transitions)"

definition ex_attrs :: "(string \<times> string attr) list" where
  "ex_attrs =
     [(''publish'', ex_publish), (''guarded'', ex_guarded), (''racing'', ex_racing),
      (''logged'', ex_logged), (''broken'', ex_broken), (''failing'', ex_failing),
      (''rename'', ex_rename), (''delete'', ex_delete), (''title'', Value (PStr ''A post'')),
      (''get_available_user_state_transitions'', ex_available), (''edit'', ex_edit),
      (''get_available_user_step_transitions'', ex_available_step),
      (''approve'', ex_approve), (''picky'', ex_picky)]"

definition ex_obj :: "string pyobj" where
  "ex_obj =
     \<lparr>pk = PInt 1, obj_id = PInt 1, attrs = map_of ex_attrs,
      save_method = (\<lambda>d. (None, d))\<rparr>"

text \<open>The same object behind a persistence layer that refuses the write.\<close>

definition ex_obj_stale :: "string pyobj" where
  "ex_obj_stale =
     ex_obj\<lparr>save_method := (\<lambda>d. (Some (ConcurrentTransition ''state has changed''), d))\<rparr>"

definition ex_request :: "string \<Rightarrow> request" where
  "ex_request transition_name =
     \<lparr>http_method = ''POST'', path = ''/admin/testapp/adminblogpost/1/change/'',
      POST = [(''title'', ''A post''), (''_fsm_transition_to'', transition_name)],
      user = ''admin''\<rparr>"

definition ex_admin :: "string fsm_admin" where
  "ex_admin =
     \<lparr>settings = \<lparr>FSM_ADMIN_FORCE_PERMIT = None\<rparr>,
      fsm_fields = [''state''],
      app_label = ''testapp'',
      model_name = ''adminblogpost'',
      get_field = map_of [(''state'', \<lparr>protected = Some (PBool True)\<rparr>),
                          (''title'', \<lparr>protected = None\<rparr>)],
      super_get_readonly_fields = (\<lambda>req. [''id'']),
      super_response_change = (\<lambda>req w. (Inr (HttpResponse ''changed''), w)),
      import_string = (\<lambda>s. Inl (OtherError ''ImportError'' s)),
      get_preserved_filters = (\<lambda>req. []),
      add_preserved_filters = (\<lambda>filters u. u)\<rparr>"

definition ex_world :: "string world" where
  "ex_world = \<lparr>inst = ''reviewed'', trace = []\<rparr>"

section \<open>Properties\<close>

subsection \<open>The trace only grows by calls during an invocation\<close>

lemma call_trace:
  "call nm a kw w = (r, w') \<Longrightarrow> \<exists>kws. trace w' = trace w @ map (Called nm) kws"
proof (cases a)
  case (Value v)
  assume "call nm a kw w = (r, w')"
  with Value have "w' = w" by simp
  then have "trace w' = trace w @ map (Called nm) []" by simp
  then show ?thesis by blast
next
  case (Method m body)
  assume "call nm a kw w = (r, w')"
  with Method have "trace w' = trace w @ map (Called nm) [kw]"
    by (auto split: prod.splits)
  then show ?thesis by blast
qed

lemma try_shapes_trace:
  "try_shapes nm a shapes w = (r, w') \<Longrightarrow> \<exists>kws. trace w' = trace w @ map (Called nm) kws"
proof (induction shapes arbitrary: w)
  case Nil
  then have "trace w' = trace w @ map (Called nm) []" by simp
  then show ?case by blast
next
  case (Cons kw rest)
  obtain r1 w1 where c: "call nm a kw w = (r1, w1)" by (cases "call nm a kw w")
  from call_trace[OF c] obtain k1 where k1: "trace w1 = trace w @ map (Called nm) k1" by blast
  show ?case
  proof (cases "raises_TypeError r1")
    case True
    then obtain e where e: "r1 = Inl e" "is_TypeError e" by (cases r1) auto
    with Cons.prems c have "try_shapes nm a rest w1 = (r, w')" by simp
    from Cons.IH[OF this] obtain k2 where "trace w' = trace w1 @ map (Called nm) k2" by blast
    with k1 have "trace w' = trace w @ map (Called nm) (k1 @ k2)" by simp
    then show ?thesis by blast
  next
    case False
    with Cons.prems c have "w' = w1" by (cases r1) (auto split: if_splits)
    with k1 show ?thesis by blast
  qed
qed

lemma invoke_transition_trace:
  "invoke_transition flag req nm a w = (r, w') \<Longrightarrow>
     \<exists>kws. trace w' = trace w @ map (Called nm) kws"
proof (cases flag)
  case True
  assume h: "invoke_transition flag req nm a w = (r, w')"
  show ?thesis
  proof (cases a)
    case (Value v)
    with h True have "trace w' = trace w @ map (Called nm) []"
      by (auto simp: invoke_transition_def)
    then show ?thesis by blast
  next
    case (Method m body)
    with h True have "try_shapes nm a (arg_shapes req) w = (r, w')"
      by (simp add: invoke_transition_def)
    then show ?thesis by (rule try_shapes_trace)
  qed
next
  case False
  assume h: "invoke_transition flag req nm a w = (r, w')"
  obtain r1 w1 where c: "call nm a [] w = (r1, w1)" by (cases "call nm a [] w")
  with h False have "w' = w1" by (cases r1) (auto simp: invoke_transition_def)
  with call_trace[OF c] show ?thesis by simp
qed

lemma try_shapes_no_TypeError:
  "try_shapes nm a shapes w = (Inl e, w') \<Longrightarrow> \<not> is_TypeError e"
proof (induction shapes arbitrary: w)
  case Nil
  then show ?case by simp
next
  case (Cons kw rest)
  obtain r1 w1 where c: "call nm a kw w = (r1, w1)" by (cases "call nm a kw w")
  show ?case
  proof (cases r1)
    case (Inl e1)
    show ?thesis
    proof (cases "is_TypeError e1")
      case True
      with Cons.prems c Inl have "try_shapes nm a rest w1 = (Inl e, w')" by simp
      then show ?thesis by (rule Cons.IH)
    next
      case False
      with Cons.prems c Inl have "e = e1" by simp
      with False show ?thesis by simp
    qed
  next
    case (Inr v)
    with Cons.prems c show ?thesis by simp
  qed
qed

lemma ex_post: "dict_get (POST (ex_request tn)) fsm_post_param = Some tn"
  by (simp add: dict_get_def ex_request_def fsm_post_param_def)

lemma ex_attrs_simps:
  "attrs ex_obj ''publish'' = Some ex_publish"
  "attrs ex_obj ''guarded'' = Some ex_guarded"
  "attrs ex_obj ''racing'' = Some ex_racing"
  "attrs ex_obj ''logged'' = Some ex_logged"
  "attrs ex_obj ''broken'' = Some ex_broken"
  "attrs ex_obj ''failing'' = Some ex_failing"
  "attrs ex_obj ''rename'' = Some ex_rename"
  "attrs ex_obj ''delete'' = Some ex_delete"
  "attrs ex_obj ''title'' = Some (Value (PStr ''A post''))"
  "attrs ex_obj ''get_available_user_state_transitions'' = Some ex_available"
  "attrs ex_obj ''edit'' = Some ex_edit"
  "attrs ex_obj ''get_available_user_step_transitions'' = Some ex_available_step"
  "attrs ex_obj ''approve'' = Some ex_approve"
  "attrs ex_obj ''picky'' = Some ex_picky"
  by (simp_all add: ex_obj_def ex_attrs_def)

lemma ex_response:
  "get_fsm_response ex_admin (ex_request tn) =
     HttpResponseRedirect (Url ''/admin/testapp/adminblogpost/1/change/'')"
  by (simp add: get_fsm_response_def get_fsm_redirect_url_def ex_admin_def ex_request_def)

lemma response_change_invoke:
  assumes "dict_get (POST req) fsm_post_param = Some tn"
    and "tn \<noteq> []"
    and "attrs obj tn = Some tf"
    and "get_fsm_transition_custom (inst w) tf = Inr cust"
    and "\<not> truthy_custom (dict_get_default cust ''form'' (Val PNone))"
    and "invoke_transition flag req tn tf w = (r, w')"
  shows "response_change flag self req obj w =
      (case r of
         Inl e \<Rightarrow>
           if is_TransitionNotAllowed e then
             (Inr (get_fsm_response self req),
              message_user ERROR (fsm_transition_not_allowed_msg tn) w')
           else if is_ConcurrentTransition e then
             (Inr (get_fsm_response self req),
              message_user ERROR (fsm_transition_error_msg tn (str_exn e)) w')
           else (Inl e, w')
       | Inr _ \<Rightarrow>
           (case save obj w' of
              (Inl e, w'') \<Rightarrow> (Inl e, w'')
            | (Inr _, w'') \<Rightarrow>
                (Inr (get_fsm_response self req),
                 message_user INFO (fsm_transition_success_msg tn) w'')))"
  using assms by (simp add: response_change_def getattr_def split: sum.splits)

text \<open>
  The invocation of a method, by the outcomes of its calls. \<open>att\<close> is the attempt
  that settles it, with the keyword arguments of the calls made up to it: the one call
  when the plugin is absent; with the plugin, the first attempt that does not raise
  \<^verbatim>\<open>TypeError\<close>, and the third when the first two raise it.
\<close>

lemma invoke_transition_attempts:
  assumes "r0 = body [] (inst w)"
    and "r1 = body [(''request'', ArgRequest req), (''by'', ArgUser (user req))] (inst w)"
    and "r2 = body [(''by'', ArgUser (user req))] (snd r1)"
    and "r3 = body [] (snd r2)"
    and "att =
      (if \<not> flag then (r0, [[]])
       else if \<not> raises_TypeError (fst r1) then
         (r1, [[(''request'', ArgRequest req), (''by'', ArgUser (user req))]])
       else if \<not> raises_TypeError (fst r2) then
         (r2, [[(''request'', ArgRequest req), (''by'', ArgUser (user req))],
               [(''by'', ArgUser (user req))]])
       else
         (r3, [[(''request'', ArgRequest req), (''by'', ArgUser (user req))],
               [(''by'', ArgUser (user req))], []]))"
  shows "invoke_transition flag req tn (Method m body) w =
           (if flag \<and> raises_TypeError (fst (fst att)) then Inr ()
            else (case fst (fst att) of Inl e \<Rightarrow> Inl e | Inr v \<Rightarrow> Inr ()),
            \<lparr>inst = snd (fst att), trace = trace w @ map (Called tn) (snd att)\<rparr>)"
proof -
  obtain o0 d0 where b0: "body [] (inst w) = (o0, d0)" by (cases "body [] (inst w)")
  obtain o1 d1 where b1:
    "body [(''request'', ArgRequest req), (''by'', ArgUser (user req))] (inst w) = (o1, d1)"
    by (cases "body [(''request'', ArgRequest req), (''by'', ArgUser (user req))] (inst w)")
  obtain o2 d2 where b2: "body [(''by'', ArgUser (user req))] d1 = (o2, d2)"
    by (cases "body [(''by'', ArgUser (user req))] d1")
  obtain o3 d3 where b3: "body [] d2 = (o3, d3)" by (cases "body [] d2")
  show ?thesis
  proof (cases flag)
    case False
    with assms(1,5) b0 show ?thesis
      by (cases o0) (simp_all add: invoke_transition_def)
  next
    case True
    with assms(2-5) b1 b2 b3 show ?thesis
      by (cases o1; cases o2; cases o3)
        (simp_all add: invoke_transition_def arg_shapes_def)
  qed
qed

lemma ex_save:
  "save ex_obj w = (Inr (), \<lparr>inst = inst w, trace = trace w @ [Saved]\<rparr>)"
  "save ex_obj_stale w =
     (Inl (ConcurrentTransition ''state has changed''),
      \<lparr>inst = inst w, trace = trace w @ [Saved]\<rparr>)"
  by (simp_all add: save_def ex_obj_def ex_obj_stale_def)


subsection \<open>An unknown attribute\<close>

text \<open>
  Claim C8. When the POST parameter \<^verbatim>\<open>_fsm_transition_to\<close> names an attribute the
  object does not have, \<^verbatim>\<open>response_change\<close> answers with the redirect of
  \<^verbatim>\<open>get_fsm_response\<close> and its only effect is the not-valid error message: the
  instance's data is unchanged and the trace gains neither a call nor a save.
\<close>

theorem response_change_unknown_attribute:
  assumes "dict_get (POST req) fsm_post_param = Some tn"
    and "tn \<noteq> []"
    and "attrs obj tn = None"
  shows "response_change flag self req obj w =
           (Inr (get_fsm_response self req),
            w\<lparr>trace := trace w @ [Message ERROR (fsm_transition_not_valid_msg tn)]\<rparr>)"
  using assms by (simp add: response_change_def getattr_def message_user_def)

theorem response_change_unknown_attribute_witness:
  "dict_get (POST (ex_request ''archive'')) fsm_post_param = Some ''archive'' \<and>
   attrs ex_obj ''archive'' = None \<and>
   response_change True ex_admin (ex_request ''archive'') ex_obj ex_world =
     (Inr (HttpResponseRedirect (Url ''/admin/testapp/adminblogpost/1/change/'')),
      \<lparr>inst = ''reviewed'',
       trace = [Message ERROR (''FSM transition '' @ [CHR 0x27] @ ''archive'' @ [CHR 0x27] @ '' is not a valid.'')]\<rparr>)"
proof -
  have p: "dict_get (POST (ex_request ''archive'')) fsm_post_param = Some ''archive''"
    by (rule ex_post)
  have n: "''archive'' \<noteq> []" by simp
  have a: "attrs ex_obj ''archive'' = None"
    by (simp add: ex_obj_def ex_attrs_def)
  show ?thesis
    using p a response_change_unknown_attribute[OF p n a, of True ex_admin ex_world]
    by (simp add: get_fsm_response_def get_fsm_redirect_url_def ex_admin_def ex_request_def
        ex_world_def fsm_transition_not_valid_msg_def quoted_def)
qed

subsection \<open>The outcome of an invocation decides message and save\<close>

lemma ex_custom_empty:
  "get_fsm_transition_custom (inst ex_world) ex_guarded = Inr []"
  "get_fsm_transition_custom (inst ex_world) ex_racing = Inr []"
  "get_fsm_transition_custom (inst ex_world) ex_publish = Inr []"
  "get_fsm_transition_custom (inst ex_world) ex_logged = Inr []"
  "get_fsm_transition_custom (inst ex_world) ex_broken = Inr []"
  "get_fsm_transition_custom (inst ex_world) ex_failing = Inr []"
  by (simp_all add: get_fsm_transition_custom_def get_fsm_transition_def ex_world_def
      ex_guarded_def ex_racing_def ex_publish_def ex_logged_def ex_broken_def ex_failing_def
      ex_meta_def)

lemma no_form_empty: "\<not> truthy_custom (dict_get_default [] ''form'' (Val PNone))"
  by (simp add: dict_get_default_def dict_get_def)

lemma ex_stale_attrs: "attrs ex_obj_stale = attrs ex_obj"
  by (simp add: ex_obj_stale_def)

text \<open>
  Claim C1, as the code has it. Let a POST name a method of the object whose descriptor
  for the current state asks for no form, so that \<^verbatim>\<open>response_change\<close> invokes it. The
  attempt \<open>att\<close> that settles the invocation is the one call with no argument when the
  logging plugin is absent; with the plugin it is the first of the calls with
  \<^verbatim>\<open>(request=request, by=request.user)\<close>, with \<^verbatim>\<open>(by=request.user)\<close> and with no
  argument that does not raise \<^verbatim>\<open>TypeError\<close>, each made on the data the call before
  left. If that attempt raises \<^verbatim>\<open>TransitionNotAllowed\<close>, the trace gains the calls
  made and the error message \<^verbatim>\<open>FSM transition '<name>' is not allowed.\<close>; if it raises
  \<^verbatim>\<open>ConcurrentTransition\<close>, the trace gains the calls made and the error message
  \<^verbatim>\<open>FSM transition '<name>' failed: <text of the exception>.\<close>; in both cases nothing
  is saved and the answer is the redirect. If the attempt returns, \<^verbatim>\<open>obj.save()\<close> is
  called next; when it returns, the success message
  \<^verbatim>\<open>FSM transition '<name>' succeeded.\<close> follows and the answer is the redirect, and
  when it raises, the exception leaves \<^verbatim>\<open>response_change\<close> and no message is
  reported.
\<close>

theorem response_change_outcome:
  assumes "dict_get (POST req) fsm_post_param = Some tn"
    and "tn \<noteq> []"
    and "attrs obj tn = Some (Method m body)"
    and "get_fsm_transition_custom (inst w) (Method m body) = Inr cust"
    and "\<not> truthy_custom (dict_get_default cust ''form'' (Val PNone))"
    and "r0 = body [] (inst w)"
    and "r1 = body [(''request'', ArgRequest req), (''by'', ArgUser (user req))] (inst w)"
    and "r2 = body [(''by'', ArgUser (user req))] (snd r1)"
    and "r3 = body [] (snd r2)"
    and "att =
      (if \<not> flag then (r0, [[]])
       else if \<not> raises_TypeError (fst r1) then
         (r1, [[(''request'', ArgRequest req), (''by'', ArgUser (user req))]])
       else if \<not> raises_TypeError (fst r2) then
         (r2, [[(''request'', ArgRequest req), (''by'', ArgUser (user req))],
               [(''by'', ArgUser (user req))]])
       else
         (r3, [[(''request'', ArgRequest req), (''by'', ArgUser (user req))],
               [(''by'', ArgUser (user req))], []]))"
  shows "(\<forall>txt. fst (fst att) = Inl (TransitionNotAllowed txt) \<longrightarrow>
            response_change flag self req obj w =
              (Inr (HttpResponseRedirect
                      (Url (add_preserved_filters self (get_preserved_filters self req) (path req)))),
               \<lparr>inst = snd (fst att),
                trace = trace w @ map (Called tn) (snd att) @
                  [Message ERROR
                     (''FSM transition '' @ [CHR 0x27] @ tn @ [CHR 0x27] @ '' is not allowed.'')]\<rparr>)) \<and>
         (\<forall>txt. fst (fst att) = Inl (ConcurrentTransition txt) \<longrightarrow>
            response_change flag self req obj w =
              (Inr (HttpResponseRedirect
                      (Url (add_preserved_filters self (get_preserved_filters self req) (path req)))),
               \<lparr>inst = snd (fst att),
                trace = trace w @ map (Called tn) (snd att) @
                  [Message ERROR
                     (''FSM transition '' @ [CHR 0x27] @ tn @ [CHR 0x27] @ '' failed: '' @ txt @
                      ''.'')]\<rparr>)) \<and>
         (\<forall>v d. fst (fst att) = Inr v \<and> save_method obj (snd (fst att)) = (None, d) \<longrightarrow>
            response_change flag self req obj w =
              (Inr (HttpResponseRedirect
                      (Url (add_preserved_filters self (get_preserved_filters self req) (path req)))),
               \<lparr>inst = d,
                trace = trace w @ map (Called tn) (snd att) @
                  [Saved,
                   Message INFO
                     (''FSM transition '' @ [CHR 0x27] @ tn @ [CHR 0x27] @ '' succeeded.'')]\<rparr>)) \<and>
         (\<forall>v e d. fst (fst att) = Inr v \<and> save_method obj (snd (fst att)) = (Some e, d) \<longrightarrow>
            response_change flag self req obj w =
              (Inl e, \<lparr>inst = d, trace = trace w @ map (Called tn) (snd att) @ [Saved]\<rparr>))"
proof -
  let ?w' = "\<lparr>inst = snd (fst att), trace = trace w @ map (Called tn) (snd att)\<rparr>"
  let ?r = "if flag \<and> raises_TypeError (fst (fst att)) then Inr ()
            else (case fst (fst att) of Inl e \<Rightarrow> Inl e | Inr v \<Rightarrow> Inr ())"
  have i: "invoke_transition flag req tn (Method m body) w = (?r, ?w')"
    using assms(6-10) by (rule invoke_transition_attempts)
  note rc = response_change_invoke[OF assms(1-5) i, of self]
  have a: "response_change flag self req obj w =
              (Inr (HttpResponseRedirect
                      (Url (add_preserved_filters self (get_preserved_filters self req) (path req)))),
               \<lparr>inst = snd (fst att),
                trace = trace w @ map (Called tn) (snd att) @
                  [Message ERROR
                     (''FSM transition '' @ [CHR 0x27] @ tn @ [CHR 0x27] @ '' is not allowed.'')]\<rparr>)"
    if "fst (fst att) = Inl (TransitionNotAllowed txt)" for "txt"
    using that
    by (simp add: rc message_user_def get_fsm_response_def get_fsm_redirect_url_def
        fsm_transition_not_allowed_msg_def quoted_def)
  have b: "response_change flag self req obj w =
              (Inr (HttpResponseRedirect
                      (Url (add_preserved_filters self (get_preserved_filters self req) (path req)))),
               \<lparr>inst = snd (fst att),
                trace = trace w @ map (Called tn) (snd att) @
                  [Message ERROR
                     (''FSM transition '' @ [CHR 0x27] @ tn @ [CHR 0x27] @ '' failed: '' @ txt @
                      ''.'')]\<rparr>)"
    if "fst (fst att) = Inl (ConcurrentTransition txt)" for "txt"
    using that
    by (simp add: rc message_user_def get_fsm_response_def get_fsm_redirect_url_def
        fsm_transition_error_msg_def quoted_def)
  have c: "response_change flag self req obj w =
              (Inr (HttpResponseRedirect
                      (Url (add_preserved_filters self (get_preserved_filters self req) (path req)))),
               \<lparr>inst = d,
                trace = trace w @ map (Called tn) (snd att) @
                  [Saved,
                   Message INFO
                     (''FSM transition '' @ [CHR 0x27] @ tn @ [CHR 0x27] @ '' succeeded.'')]\<rparr>)"
    if "fst (fst att) = Inr v" "save_method obj (snd (fst att)) = (None, d)" for v d
    using that
    by (simp add: rc save_def message_user_def get_fsm_response_def get_fsm_redirect_url_def
        fsm_transition_success_msg_def quoted_def)
  have d: "response_change flag self req obj w =
              (Inl e, \<lparr>inst = d, trace = trace w @ map (Called tn) (snd att) @ [Saved]\<rparr>)"
    if "fst (fst att) = Inr v" "save_method obj (snd (fst att)) = (Some e, d)" for v e d
    using that by (simp add: rc save_def)
  from a b c d show ?thesis by blast
qed


theorem response_change_outcome_witness:
  "response_change False ex_admin (ex_request ''guarded'') ex_obj ex_world =
     (Inr (HttpResponseRedirect (Url ''/admin/testapp/adminblogpost/1/change/'')),
      \<lparr>inst = ''reviewed'',
       trace = [Called ''guarded'' [],
                Message ERROR
                  (''FSM transition '' @ [CHR 0x27] @ ''guarded'' @ [CHR 0x27] @ '' is not allowed.'')]\<rparr>) \<and>
   response_change False ex_admin (ex_request ''racing'') ex_obj ex_world =
     (Inr (HttpResponseRedirect (Url ''/admin/testapp/adminblogpost/1/change/'')),
      \<lparr>inst = ''reviewed'',
       trace = [Called ''racing'' [],
                Message ERROR
                  (''FSM transition '' @ [CHR 0x27] @ ''racing'' @ [CHR 0x27] @
                   '' failed: state has changed.'')]\<rparr>) \<and>
   response_change False ex_admin (ex_request ''publish'') ex_obj ex_world =
     (Inr (HttpResponseRedirect (Url ''/admin/testapp/adminblogpost/1/change/'')),
      \<lparr>inst = ''published'',
       trace = [Called ''publish'' [], Saved,
                Message INFO
                  (''FSM transition '' @ [CHR 0x27] @ ''publish'' @ [CHR 0x27] @ '' succeeded.'')]\<rparr>) \<and>
   response_change True ex_admin (ex_request ''logged'') ex_obj ex_world =
     (Inr (HttpResponseRedirect (Url ''/admin/testapp/adminblogpost/1/change/'')),
      \<lparr>inst = ''hidden'',
       trace = [Called ''logged''
                  [(''request'', ArgRequest (ex_request ''logged'')), (''by'', ArgUser ''admin'')],
                Called ''logged'' [(''by'', ArgUser ''admin'')],
                Saved,
                Message INFO
                  (''FSM transition '' @ [CHR 0x27] @ ''logged'' @ [CHR 0x27] @ '' succeeded.'')]\<rparr>) \<and>
   response_change False ex_admin (ex_request ''publish'') ex_obj_stale ex_world =
     (Inl (ConcurrentTransition ''state has changed''),
      \<lparr>inst = ''published'', trace = [Called ''publish'' [], Saved]\<rparr>)"
proof -
  have n: "''guarded'' \<noteq> []" "''racing'' \<noteq> []" "''publish'' \<noteq> []" "''logged'' \<noteq> []"
    by simp_all
  have urls: "add_preserved_filters ex_admin (get_preserved_filters ex_admin (ex_request tn))
      (path (ex_request tn)) = ''/admin/testapp/adminblogpost/1/change/''" for tn
    by (simp add: ex_admin_def ex_request_def)
  have sv: "save_method ex_obj d = (None, d)" for d
    by (simp add: ex_obj_def)
  have usr: "user (ex_request tn) = ''admin''" for tn
    by (simp add: ex_request_def)
  have g: "response_change False ex_admin (ex_request ''guarded'') ex_obj ex_world =
     (Inr (HttpResponseRedirect (Url ''/admin/testapp/adminblogpost/1/change/'')),
      \<lparr>inst = ''reviewed'',
       trace = [Called ''guarded'' [],
                Message ERROR
                  (''FSM transition '' @ [CHR 0x27] @ ''guarded'' @ [CHR 0x27] @ '' is not allowed.'')]\<rparr>)"
    using response_change_outcome[OF ex_post n(1) ex_attrs_simps(2)[unfolded ex_guarded_def]
        ex_custom_empty(1)[unfolded ex_guarded_def] no_form_empty refl refl refl refl refl,
        of False ex_admin]
    by (simp add: urls ex_world_def)
  have r: "response_change False ex_admin (ex_request ''racing'') ex_obj ex_world =
     (Inr (HttpResponseRedirect (Url ''/admin/testapp/adminblogpost/1/change/'')),
      \<lparr>inst = ''reviewed'',
       trace = [Called ''racing'' [],
                Message ERROR
                  (''FSM transition '' @ [CHR 0x27] @ ''racing'' @ [CHR 0x27] @
                   '' failed: state has changed.'')]\<rparr>)"
    using response_change_outcome[OF ex_post n(2) ex_attrs_simps(3)[unfolded ex_racing_def]
        ex_custom_empty(2)[unfolded ex_racing_def] no_form_empty refl refl refl refl refl,
        of False ex_admin]
    by (simp add: urls ex_world_def)
  have p: "response_change False ex_admin (ex_request ''publish'') ex_obj ex_world =
     (Inr (HttpResponseRedirect (Url ''/admin/testapp/adminblogpost/1/change/'')),
      \<lparr>inst = ''published'',
       trace = [Called ''publish'' [], Saved,
                Message INFO
                  (''FSM transition '' @ [CHR 0x27] @ ''publish'' @ [CHR 0x27] @ '' succeeded.'')]\<rparr>)"
    using response_change_outcome[OF ex_post n(3) ex_attrs_simps(1)[unfolded ex_publish_def]
        ex_custom_empty(3)[unfolded ex_publish_def] no_form_empty refl refl refl refl refl,
        of False ex_admin]
    by (simp add: urls sv ex_world_def)
  have l: "response_change True ex_admin (ex_request ''logged'') ex_obj ex_world =
     (Inr (HttpResponseRedirect (Url ''/admin/testapp/adminblogpost/1/change/'')),
      \<lparr>inst = ''hidden'',
       trace = [Called ''logged''
                  [(''request'', ArgRequest (ex_request ''logged'')), (''by'', ArgUser ''admin'')],
                Called ''logged'' [(''by'', ArgUser ''admin'')],
                Saved,
                Message INFO
                  (''FSM transition '' @ [CHR 0x27] @ ''logged'' @ [CHR 0x27] @ '' succeeded.'')]\<rparr>)"
    using response_change_outcome[OF ex_post n(4) ex_attrs_simps(4)[unfolded ex_logged_def]
        ex_custom_empty(4)[unfolded ex_logged_def] no_form_empty refl refl refl refl refl,
        of True ex_admin]
    by (simp add: urls sv usr ex_world_def)
  have svs: "save_method ex_obj_stale d = (Some (ConcurrentTransition ''state has changed''), d)"
    for d
    by (simp add: ex_obj_stale_def)
  have s: "response_change False ex_admin (ex_request ''publish'') ex_obj_stale ex_world =
     (Inl (ConcurrentTransition ''state has changed''),
      \<lparr>inst = ''published'', trace = [Called ''publish'' [], Saved]\<rparr>)"
    using response_change_outcome[OF ex_post n(3)
        ex_attrs_simps(1)[unfolded ex_publish_def, folded ex_stale_attrs]
        ex_custom_empty(3)[unfolded ex_publish_def] no_form_empty refl refl refl refl refl,
        of False ex_admin]
    by (simp add: svs ex_world_def)
  from g r p l s show ?thesis by simp
qed

text \<open>
  The claim as stated fails when \<^verbatim>\<open>obj.save()\<close> raises: on the object whose
  persistence layer refuses the write, \<open>publish\<close> returns normally, the object's
  \<^verbatim>\<open>save\<close> is called, and \<^verbatim>\<open>response_change\<close> ends with the exception of
  \<^verbatim>\<open>save\<close>; no success message is reported.
\<close>

theorem response_change_save_raises:
  "attrs ex_obj_stale ''publish'' =
     Some (Method (Some (ex_meta [\<lparr>name = ''publish'', source = StateValue (PStr ''reviewed''),
                                   custom = []\<rparr>]))
             (\<lambda>kw d. if kw = [] then (Inr (RVal PNone), ''published'')
                      else (Inl (TypeError ''unexpected keyword argument''), d))) \<and>
   response_change False ex_admin (ex_request ''publish'') ex_obj_stale ex_world =
     (Inl (ConcurrentTransition ''state has changed''),
      \<lparr>inst = ''published'', trace = [Called ''publish'' [], Saved]\<rparr>)"
proof -
  have n: "''publish'' \<noteq> []" by simp
  have a: "attrs ex_obj_stale ''publish'' = Some ex_publish"
    by (simp add: ex_stale_attrs ex_attrs_simps)
  have i: "invoke_transition False (ex_request ''publish'') ''publish'' ex_publish ex_world =
      (Inr (), \<lparr>inst = ''published'', trace = [Called ''publish'' []]\<rparr>)"
    by (simp add: invoke_transition_def ex_publish_def ex_world_def)
  have "response_change False ex_admin (ex_request ''publish'') ex_obj_stale ex_world =
     (Inl (ConcurrentTransition ''state has changed''),
      \<lparr>inst = ''published'', trace = [Called ''publish'' [], Saved]\<rparr>)"
    using response_change_invoke[OF ex_post n a ex_custom_empty(3) no_form_empty i, of ex_admin]
    by (simp add: ex_save)
  with a show ?thesis by (simp add: ex_publish_def)
qed

subsection \<open>Exceptions that leave \<^verbatim>\<open>response_change\<close>\<close>

lemma ex_custom_picky: "get_fsm_transition_custom (inst ex_world) ex_picky = Inr []"
  by (simp add: get_fsm_transition_custom_def get_fsm_transition_def ex_world_def ex_picky_def
      ex_meta_def)

text \<open>
  Claim C2, as the code has it. Let a POST name a method of the object whose descriptor
  asks for no form, and let \<open>att\<close> be the attempt that settles the invocation, as in
  C1. When that attempt raises an exception other than \<^verbatim>\<open>TransitionNotAllowed\<close> and
  \<^verbatim>\<open>ConcurrentTransition\<close>, and with the logging plugin detected other than
  \<^verbatim>\<open>TypeError\<close>, the exception leaves \<^verbatim>\<open>response_change\<close> unchanged, the instance
  is as the attempt left it, and the trace gains the calls made and nothing else: no
  save, no message. With the plugin absent the attempt is the one call, so this is every
  such exception the transition raises. With the plugin detected an attempt is made
  when every attempt before it raised \<^verbatim>\<open>TypeError\<close>, so this is every such exception
  other than \<^verbatim>\<open>TypeError\<close> that an attempt raises.
\<close>

theorem response_change_propagates:
  assumes "dict_get (POST req) fsm_post_param = Some tn"
    and "tn \<noteq> []"
    and "attrs obj tn = Some (Method m body)"
    and "get_fsm_transition_custom (inst w) (Method m body) = Inr cust"
    and "\<not> truthy_custom (dict_get_default cust ''form'' (Val PNone))"
    and "r0 = body [] (inst w)"
    and "r1 = body [(''request'', ArgRequest req), (''by'', ArgUser (user req))] (inst w)"
    and "r2 = body [(''by'', ArgUser (user req))] (snd r1)"
    and "r3 = body [] (snd r2)"
    and "att =
      (if \<not> flag then (r0, [[]])
       else if \<not> raises_TypeError (fst r1) then
         (r1, [[(''request'', ArgRequest req), (''by'', ArgUser (user req))]])
       else if \<not> raises_TypeError (fst r2) then
         (r2, [[(''request'', ArgRequest req), (''by'', ArgUser (user req))],
               [(''by'', ArgUser (user req))]])
       else
         (r3, [[(''request'', ArgRequest req), (''by'', ArgUser (user req))],
               [(''by'', ArgUser (user req))], []]))"
    and "fst (fst att) = Inl e"
    and "\<not> is_TransitionNotAllowed e"
    and "\<not> is_ConcurrentTransition e"
    and "flag \<Longrightarrow> \<not> is_TypeError e"
  shows "response_change flag self req obj w =
           (Inl e, \<lparr>inst = snd (fst att), trace = trace w @ map (Called tn) (snd att)\<rparr>)"
proof -
  let ?w' = "\<lparr>inst = snd (fst att), trace = trace w @ map (Called tn) (snd att)\<rparr>"
  let ?r = "if flag \<and> raises_TypeError (fst (fst att)) then Inr ()
            else (case fst (fst att) of Inl e \<Rightarrow> Inl e | Inr v \<Rightarrow> Inr ())"
  have i: "invoke_transition flag req tn (Method m body) w = (?r, ?w')"
    using assms(6-10) by (rule invoke_transition_attempts)
  have "?r = Inl e"
    using assms(11,14) by auto
  with i have "invoke_transition flag req tn (Method m body) w = (Inl e, ?w')" by simp
  from response_change_invoke[OF assms(1-5) this, of self] assms(12,13)
  show ?thesis by simp
qed

theorem response_change_propagates_witness:
  "response_change False ex_admin (ex_request ''failing'') ex_obj ex_world =
     (Inl (OtherError ''ValueError'' ''bad value''),
      \<lparr>inst = ''reviewed'', trace = [Called ''failing'' []]\<rparr>) \<and>
   response_change True ex_admin (ex_request ''failing'') ex_obj ex_world =
     (Inl (OtherError ''ValueError'' ''bad value''),
      \<lparr>inst = ''reviewed'',
       trace = [Called ''failing''
                  [(''request'', ArgRequest (ex_request ''failing'')), (''by'', ArgUser ''admin'')]]\<rparr>) \<and>
   response_change True ex_admin (ex_request ''picky'') ex_obj ex_world =
     (Inl (OtherError ''ValueError'' ''bad value''),
      \<lparr>inst = ''reviewed'',
       trace = [Called ''picky''
                  [(''request'', ArgRequest (ex_request ''picky'')), (''by'', ArgUser ''admin'')],
                Called ''picky'' [(''by'', ArgUser ''admin'')]]\<rparr>) \<and>
   response_change False ex_admin (ex_request ''broken'') ex_obj ex_world =
     (Inl (TypeError ''unsupported operand''),
      \<lparr>inst = ''reviewed'', trace = [Called ''broken'' []]\<rparr>)"
proof -
  have n: "''failing'' \<noteq> []" "''broken'' \<noteq> []" "''picky'' \<noteq> []" by simp_all
  have usr: "user (ex_request tn) = ''admin''" for tn
    by (simp add: ex_request_def)
  have e: "\<not> is_TransitionNotAllowed (OtherError ''ValueError'' ''bad value'')"
    "\<not> is_ConcurrentTransition (OtherError ''ValueError'' ''bad value'')"
    "\<not> is_TypeError (OtherError ''ValueError'' ''bad value'')"
    "\<not> is_TransitionNotAllowed (TypeError ''unsupported operand'')"
    "\<not> is_ConcurrentTransition (TypeError ''unsupported operand'')"
    by simp_all
  have a: "response_change False ex_admin (ex_request ''failing'') ex_obj ex_world =
     (Inl (OtherError ''ValueError'' ''bad value''),
      \<lparr>inst = ''reviewed'', trace = [Called ''failing'' []]\<rparr>)"
    using response_change_propagates[where flag = False and e = "OtherError ''ValueError'' ''bad value''" and self = ex_admin,
        OF ex_post n(1) ex_attrs_simps(6)[unfolded ex_failing_def]
        ex_custom_empty(6)[unfolded ex_failing_def] no_form_empty refl refl refl refl refl _
        e(1) e(2)]
    by (simp add: ex_world_def)
  have b: "response_change True ex_admin (ex_request ''failing'') ex_obj ex_world =
     (Inl (OtherError ''ValueError'' ''bad value''),
      \<lparr>inst = ''reviewed'',
       trace = [Called ''failing''
                  [(''request'', ArgRequest (ex_request ''failing'')), (''by'', ArgUser ''admin'')]]\<rparr>)"
    using response_change_propagates[where flag = True and e = "OtherError ''ValueError'' ''bad value''" and self = ex_admin,
        OF ex_post n(1) ex_attrs_simps(6)[unfolded ex_failing_def]
        ex_custom_empty(6)[unfolded ex_failing_def] no_form_empty refl refl refl refl refl _
        e(1) e(2)]
    by (simp add: usr ex_world_def)
  have c: "response_change True ex_admin (ex_request ''picky'') ex_obj ex_world =
     (Inl (OtherError ''ValueError'' ''bad value''),
      \<lparr>inst = ''reviewed'',
       trace = [Called ''picky''
                  [(''request'', ArgRequest (ex_request ''picky'')), (''by'', ArgUser ''admin'')],
                Called ''picky'' [(''by'', ArgUser ''admin'')]]\<rparr>)"
    using response_change_propagates[where flag = True and e = "OtherError ''ValueError'' ''bad value''" and self = ex_admin,
        OF ex_post n(3) ex_attrs_simps(14)[unfolded ex_picky_def]
        ex_custom_picky[unfolded ex_picky_def] no_form_empty refl refl refl refl refl _
        e(1) e(2)]
    by (simp add: usr ex_world_def)
  have d: "response_change False ex_admin (ex_request ''broken'') ex_obj ex_world =
     (Inl (TypeError ''unsupported operand''),
      \<lparr>inst = ''reviewed'', trace = [Called ''broken'' []]\<rparr>)"
    using response_change_propagates[where flag = False and e = "TypeError ''unsupported operand''" and self = ex_admin,
        OF ex_post n(2) ex_attrs_simps(5)[unfolded ex_broken_def]
        ex_custom_empty(5)[unfolded ex_broken_def] no_form_empty refl refl refl refl refl _
        e(4) e(5)]
    by (simp add: ex_world_def)
  from a b c d show ?thesis by simp
qed

text \<open>
  The claim as stated fails when the logging plugin is detected: \<open>broken\<close> raises
  \<^verbatim>\<open>TypeError\<close> from its body on every call, which is neither of the two named
  exceptions, and \<^verbatim>\<open>response_change\<close> does not propagate it. It calls the method
  three times, saves the object and reports success.
\<close>

theorem response_change_swallows_TypeError:
  "call ''broken'' ex_broken [] ex_world =
     (Inl (TypeError ''unsupported operand''),
      \<lparr>inst = ''reviewed'', trace = [Called ''broken'' []]\<rparr>) \<and>
   response_change True ex_admin (ex_request ''broken'') ex_obj ex_world =
     (Inr (HttpResponseRedirect (Url ''/admin/testapp/adminblogpost/1/change/'')),
      \<lparr>inst = ''reviewed'',
       trace = [Called ''broken''
                  [(''request'', ArgRequest (ex_request ''broken'')), (''by'', ArgUser ''admin'')],
                Called ''broken'' [(''by'', ArgUser ''admin'')],
                Called ''broken'' [],
                Saved,
                Message INFO
                  (''FSM transition '' @ [CHR 0x27] @ ''broken'' @ [CHR 0x27] @ '' succeeded.'')]\<rparr>)"
proof -
  have c: "call ''broken'' ex_broken [] ex_world =
     (Inl (TypeError ''unsupported operand''),
      \<lparr>inst = ''reviewed'', trace = [Called ''broken'' []]\<rparr>)"
    by (simp add: ex_broken_def ex_world_def)
  have n: "''broken'' \<noteq> []" by simp
  have i: "invoke_transition True (ex_request ''broken'') ''broken'' ex_broken ex_world =
      (Inr (),
       \<lparr>inst = ''reviewed'',
        trace = [Called ''broken''
                   [(''request'', ArgRequest (ex_request ''broken'')), (''by'', ArgUser ''admin'')],
                 Called ''broken'' [(''by'', ArgUser ''admin'')],
                 Called ''broken'' []]\<rparr>)"
    by (simp add: invoke_transition_def arg_shapes_def ex_broken_def ex_world_def ex_request_def)
  have r: "response_change True ex_admin (ex_request ''broken'') ex_obj ex_world =
     (Inr (HttpResponseRedirect (Url ''/admin/testapp/adminblogpost/1/change/'')),
      \<lparr>inst = ''reviewed'',
       trace = [Called ''broken''
                  [(''request'', ArgRequest (ex_request ''broken'')), (''by'', ArgUser ''admin'')],
                Called ''broken'' [(''by'', ArgUser ''admin'')],
                Called ''broken'' [],
                Saved,
                Message INFO
                  (''FSM transition '' @ [CHR 0x27] @ ''broken'' @ [CHR 0x27] @ '' succeeded.'')]\<rparr>)"
    using response_change_invoke[OF ex_post n ex_attrs_simps(5) ex_custom_empty(5)
        no_form_empty i, of ex_admin]
    by (simp add: ex_response ex_save message_user_def fsm_transition_success_msg_def quoted_def)
  from c r show ?thesis by simp
qed

subsection \<open>The argument shapes\<close>

lemma calls_of_append: "calls_of (xs @ ys) = calls_of xs @ calls_of ys"
  by (induction xs rule: calls_of.induct) simp_all

lemma calls_of_effects:
  "calls_of (trace (message_user lv msg w)) = calls_of (trace w)"
  "calls_of (trace (snd (save obj w))) = calls_of (trace w)"
  by (simp_all add: message_user_def save_def calls_of_append split: prod.splits option.splits)

lemma finish_calls:
  "calls_of (trace (snd (case r of
         Inl e \<Rightarrow>
           if is_TransitionNotAllowed e then (Inr resp, message_user ERROR m1 w')
           else if is_ConcurrentTransition e then (Inr resp, message_user ERROR (m2 e) w')
           else (Inl e, w')
       | Inr (u::unit) \<Rightarrow>
           (case save obj w' of
              (Inl e, w'') \<Rightarrow> (Inl e, w'')
            | (Inr (u'::unit), w'') \<Rightarrow> (Inr resp, message_user INFO m3 w''))))) =
   calls_of (trace w')"
proof (cases r)
  case (Inl e)
  then show ?thesis by (simp add: calls_of_effects)
next
  case (Inr u)
  obtain r2 w2 where s: "save obj w' = (r2, w2)" by (cases "save obj w'")
  from calls_of_effects(2)[of obj w'] s have "calls_of (trace w2) = calls_of (trace w')" by simp
  with Inr s show ?thesis by (cases r2) (simp_all add: calls_of_effects)
qed

lemma save_trace: "trace (snd (save obj w)) = trace w @ [Saved]"
  by (simp add: save_def split: prod.splits option.splits)

text \<open>
  Claim C3. Let a POST name a method of the object whose descriptor asks for no form,
  and let \<open>r1\<close> and \<open>r2\<close> be the outcomes of calling it with
  \<^verbatim>\<open>(request=request, by=request.user)\<close> and then with \<^verbatim>\<open>(by=request.user)\<close>, the
  second on the data the first left. With the logging plugin detected, the calls
  \<^verbatim>\<open>response_change\<close> makes are the call with the first shape; then, when that one
  raised \<^verbatim>\<open>TypeError\<close>, the call with the second shape; then, when that one raised
  \<^verbatim>\<open>TypeError\<close> too, the call with no argument: the loop stops at the first attempt
  that does not raise \<^verbatim>\<open>TypeError\<close>, and no \<^verbatim>\<open>TypeError\<close> of an attempt leaves
  \<^verbatim>\<open>response_change\<close>: when it ends with a \<^verbatim>\<open>TypeError\<close>, the last event of the
  trace is the call of \<^verbatim>\<open>obj.save()\<close>, which raised it. With the plugin absent the
  method is called once, with no argument.
\<close>

theorem response_change_arg_shapes:
  assumes "dict_get (POST req) fsm_post_param = Some tn"
    and "tn \<noteq> []"
    and "attrs obj tn = Some (Method m body)"
    and "get_fsm_transition_custom (inst w) (Method m body) = Inr cust"
    and "\<not> truthy_custom (dict_get_default cust ''form'' (Val PNone))"
    and "r1 = body [(''request'', ArgRequest req), (''by'', ArgUser (user req))] (inst w)"
    and "r2 = body [(''by'', ArgUser (user req))] (snd r1)"
  shows "calls_of (trace (snd (response_change True self req obj w))) =
           calls_of (trace w) @
           (if \<not> raises_TypeError (fst r1) then
              [(tn, [(''request'', ArgRequest req), (''by'', ArgUser (user req))])]
            else if \<not> raises_TypeError (fst r2) then
              [(tn, [(''request'', ArgRequest req), (''by'', ArgUser (user req))]),
               (tn, [(''by'', ArgUser (user req))])]
            else
              [(tn, [(''request'', ArgRequest req), (''by'', ArgUser (user req))]),
               (tn, [(''by'', ArgUser (user req))]),
               (tn, [])]) \<and>
         (raises_TypeError (fst (response_change True self req obj w)) \<longrightarrow>
            (\<exists>evs. trace (snd (response_change True self req obj w)) = evs @ [Saved])) \<and>
         calls_of (trace (snd (response_change False self req obj w))) =
           calls_of (trace w) @ [(tn, [])]"
proof -
  let ?k1 = "[(''request'', ArgRequest req), (''by'', ArgUser (user req))]"
  let ?k2 = "[(''by'', ArgUser (user req))]"
  obtain o1 d1 where b1: "body ?k1 (inst w) = (o1, d1)" by (cases "body ?k1 (inst w)")
  obtain o2 d2 where b2: "body ?k2 d1 = (o2, d2)" by (cases "body ?k2 d1")
  obtain o3 d3 where b3: "body [] d2 = (o3, d3)" by (cases "body [] d2")
  obtain o0 d0 where b0: "body [] (inst w) = (o0, d0)" by (cases "body [] (inst w)")
  from assms(6,7) b1 b2 have rs: "r1 = (o1, d1)" "r2 = (o2, d2)"
    by simp_all
  obtain rT wT where iT: "invoke_transition True req tn (Method m body) w = (rT, wT)"
    by (cases "invoke_transition True req tn (Method m body) w")
  obtain rF wF where iF: "invoke_transition False req tn (Method m body) w = (rF, wF)"
    by (cases "invoke_transition False req tn (Method m body) w")
  have cT: "calls_of (trace (snd (response_change True self req obj w))) = calls_of (trace wT)"
    by (simp add: response_change_invoke[OF assms(1-5) iT, of self] finish_calls)
  have cF: "calls_of (trace (snd (response_change False self req obj w))) = calls_of (trace wF)"
    by (simp add: response_change_invoke[OF assms(1-5) iF, of self] finish_calls)
  have nT: "raises_TypeError (fst (response_change True self req obj w)) \<longrightarrow>
            (\<exists>evs. trace (snd (response_change True self req obj w)) = evs @ [Saved])"
  proof -
    from iT have "try_shapes tn (Method m body) (arg_shapes req) w = (rT, wT)"
      by (simp add: invoke_transition_def)
    then have nte: "\<And>e. rT = Inl e \<Longrightarrow> \<not> is_TypeError e"
      using try_shapes_no_TypeError by blast
    show ?thesis
    proof (cases rT)
      case (Inl e)
      with nte have "\<not> is_TypeError e" by simp
      with Inl show ?thesis
        by (simp add: response_change_invoke[OF assms(1-5) iT, of self])
    next
      case (Inr u)
      obtain r2 w2 where s: "save obj wT = (r2, w2)" by (cases "save obj wT")
      from save_trace[of obj wT] s have "trace w2 = trace wT @ [Saved]" by simp
      with Inr s show ?thesis
        by (cases r2) (simp_all add: response_change_invoke[OF assms(1-5) iT, of self])
    qed
  qed
  have wF: "trace wF = trace w @ [Called tn []]"
    using iF b0 by (auto simp: invoke_transition_def split: sum.splits)
  have wT: "trace wT = trace w @
      (if \<not> raises_TypeError o1 then [Called tn ?k1]
       else if \<not> raises_TypeError o2 then [Called tn ?k1, Called tn ?k2]
       else [Called tn ?k1, Called tn ?k2, Called tn []])"
    using iT b1 b2 b3
    by (cases o1; cases o2; cases o3)
      (auto simp: invoke_transition_def arg_shapes_def split: if_splits)
  have c1: "calls_of (trace (snd (response_change True self req obj w))) =
      calls_of (trace w) @
           (if \<not> raises_TypeError (fst r1) then
              [(tn, [(''request'', ArgRequest req), (''by'', ArgUser (user req))])]
            else if \<not> raises_TypeError (fst r2) then
              [(tn, [(''request'', ArgRequest req), (''by'', ArgUser (user req))]),
               (tn, [(''by'', ArgUser (user req))])]
            else
              [(tn, [(''request'', ArgRequest req), (''by'', ArgUser (user req))]),
               (tn, [(''by'', ArgUser (user req))]),
               (tn, [])])"
    by (simp add: cT wT rs calls_of_append)
  have c3: "calls_of (trace (snd (response_change False self req obj w))) =
           calls_of (trace w) @ [(tn, [])]"
    by (simp add: cF wF calls_of_append)
  from c1 nT c3 show ?thesis by blast
qed


theorem response_change_arg_shapes_witness:
  "calls_of (trace (snd (response_change True ex_admin (ex_request ''logged'') ex_obj ex_world))) =
     [(''logged'', [(''request'', ArgRequest (ex_request ''logged'')), (''by'', ArgUser ''admin'')]),
      (''logged'', [(''by'', ArgUser ''admin'')])] \<and>
   calls_of (trace (snd (response_change False ex_admin (ex_request ''logged'') ex_obj ex_world))) =
     [(''logged'', [])]"
proof -
  have n: "''logged'' \<noteq> []" by simp
  have a: "attrs ex_obj ''logged'' =
      Some (Method (Some (ex_meta [\<lparr>name = ''logged'', source = WILDCARD, custom = []\<rparr>]))
        (\<lambda>kw d. if map fst kw = [''by''] then (Inr (RVal PNone), ''hidden'')
                 else (Inl (TypeError ''unexpected keyword argument''), d)))"
    by (simp add: ex_attrs_simps ex_logged_def)
  have c: "get_fsm_transition_custom (inst ex_world)
      (Method (Some (ex_meta [\<lparr>name = ''logged'', source = WILDCARD, custom = []\<rparr>]))
        (\<lambda>kw d. if map fst kw = [''by''] then (Inr (RVal PNone), ''hidden'')
                 else (Inl (TypeError ''unexpected keyword argument''), d))) = Inr []"
    using ex_custom_empty(4) by (simp add: ex_logged_def)
  show ?thesis
    using response_change_arg_shapes[OF ex_post n a c no_form_empty refl refl, of ex_admin]
    by (simp add: ex_world_def ex_request_def)
qed

subsection \<open>The transitions offered on the change page\<close>


lemma object_transitions_loop_pure:
  assumes "\<forall>f \<in> set fs. \<exists>m body.
             attrs obj (''get_available_user_'' @ f @ ''_transitions'') = Some (Method m body) \<and>
             body [(''user'', ArgUser (user req))] (inst w) = (Inr (RTransitions (avail f)), inst w)"
  shows "inst (snd (object_transitions_loop self req obj fs w)) = inst w \<and>
         fst (object_transitions_loop self req obj fs w) =
           Inr (map (\<lambda>f. \<lparr>fsm_field = f,
                          available_transitions = filter (admin_allowed self) (avail f)\<rparr>) fs)"
  using assms
proof (induction fs arbitrary: w)
  case Nil
  then show ?case by simp
next
  case (Cons f fs)
  from Cons.prems obtain m body where
    a: "attrs obj (''get_available_user_'' @ f @ ''_transitions'') = Some (Method m body)" and
    b: "body [(''user'', ArgUser (user req))] (inst w) = (Inr (RTransitions (avail f)), inst w)"
    by auto
  let ?w1 = "\<lparr>inst = inst w,
      trace = trace w @ [Called (''get_available_user_'' @ f @ ''_transitions'')
                            [(''user'', ArgUser (user req))]]\<rparr>"
  have i: "inst ?w1 = inst w" by simp
  have "\<forall>f \<in> set fs. \<exists>m body.
             attrs obj (''get_available_user_'' @ f @ ''_transitions'') = Some (Method m body) \<and>
             body [(''user'', ArgUser (user req))] (inst ?w1) = (Inr (RTransitions (avail f)), inst ?w1)"
    using Cons.prems by simp
  from Cons.IH[OF this] have ih:
    "inst (snd (object_transitions_loop self req obj fs ?w1)) = inst w"
    "fst (object_transitions_loop self req obj fs ?w1) =
           Inr (map (\<lambda>f. \<lparr>fsm_field = f,
                          available_transitions = filter (admin_allowed self) (avail f)\<rparr>) fs)"
    by simp_all
  obtain r2 w2 where l: "object_transitions_loop self req obj fs ?w1 = (r2, w2)"
    by (cases "object_transitions_loop self req obj fs ?w1")
  with ih have "inst w2 = inst w" "r2 = Inr (map (\<lambda>f. \<lparr>fsm_field = f,
                          available_transitions = filter (admin_allowed self) (avail f)\<rparr>) fs)"
    by simp_all
  with a b l show ?case
    by (simp add: getattr_def)
qed


lemma ex_available_pure:
  assumes "set fs \<subseteq> {''state'', ''step''}"
  shows "\<forall>f \<in> set fs. \<exists>m body.
      attrs ex_obj (''get_available_user_'' @ f @ ''_transitions'') = Some (Method m body) \<and>
      body [(''user'', ArgUser (user (ex_request tn)))] (inst ex_world) =
        (Inr (RTransitions (ex_avail f)), inst ex_world)"
proof
  fix f
  assume "f \<in> set fs"
  with assms have "f = ''state'' \<or> f = ''step''" by auto
  then show "\<exists>m body.
      attrs ex_obj (''get_available_user_'' @ f @ ''_transitions'') = Some (Method m body) \<and>
      body [(''user'', ArgUser (user (ex_request tn)))] (inst ex_world) =
        (Inr (RTransitions (ex_avail f)), inst ex_world)"
    by (auto simp: ex_attrs_simps ex_available_def ex_available_step_def ex_avail_def)
qed

text \<open>
  Claim C4. Let every field of \<^verbatim>\<open>fsm_fields\<close> have its method
  \<^verbatim>\<open>get_available_user_<field>_transitions\<close> on the object, a query that called with
  \<^verbatim>\<open>user=request.user\<close> returns the transitions \<open>avail field\<close> and leaves the
  instance as it is. Then the generator yields one entry for each field name, in sorted
  order, and the entry's transitions are those of \<open>avail field\<close>, in their order, whose
  \<^verbatim>\<open>custom.get("admin", default)\<close> is true, the default being
  \<^verbatim>\<open>default_disallow_transition\<close>.
\<close>

theorem change_view_transitions:
  assumes "\<forall>f \<in> set (fsm_fields self). \<exists>m body.
             attrs obj (''get_available_user_'' @ f @ ''_transitions'') = Some (Method m body) \<and>
             body [(''user'', ArgUser (user req))] (inst w) = (Inr (RTransitions (avail f)), inst w)"
  shows "fst (get_fsm_object_transitions self req obj w) =
           Inr (map (\<lambda>f. \<lparr>fsm_field = f,
                  available_transitions =
                    filter (\<lambda>t. truthy_custom
                              (dict_get_default (custom t) ''admin''
                                 (Val (PBool (default_disallow_transition (settings self))))))
                      (avail f)\<rparr>)
                (sort (fsm_fields self)))"
proof -
  have "\<forall>f \<in> set (sort (fsm_fields self)). \<exists>m body.
             attrs obj (''get_available_user_'' @ f @ ''_transitions'') = Some (Method m body) \<and>
             body [(''user'', ArgUser (user req))] (inst w) = (Inr (RTransitions (avail f)), inst w)"
    using assms by simp
  from object_transitions_loop_pure[OF this, of self]
  have "fst (get_fsm_object_transitions self req obj w) =
           Inr (map (\<lambda>f. \<lparr>fsm_field = f,
                          available_transitions = filter (admin_allowed self) (avail f)\<rparr>)
                (sort (fsm_fields self)))"
    by (simp add: get_fsm_object_transitions_def)
  moreover have "admin_allowed self =
      (\<lambda>t. truthy_custom (dict_get_default (custom t) ''admin''
                (Val (PBool (default_disallow_transition (settings self))))))"
    by (simp add: fun_eq_iff admin_allowed_def)
  ultimately show ?thesis by simp
qed

theorem change_view_transitions_witness:
  "fst (get_fsm_object_transitions (ex_admin\<lparr>fsm_fields := [''step'', ''state'']\<rparr>)
          (ex_request ''publish'') ex_obj ex_world) =
     Inr [\<lparr>fsm_field = ''state'',
           available_transitions =
             [\<lparr>name = ''publish'', source = StateValue (PStr ''reviewed''), custom = []\<rparr>,
              \<lparr>name = ''moderate'', source = WILDCARD, custom = [(''admin'', Val (PBool True))]\<rparr>]\<rparr>,
          \<lparr>fsm_field = ''step'',
           available_transitions =
             [\<lparr>name = ''skip'', source = WILDCARD, custom = [(''label'', Val (PStr ''Skip''))]\<rparr>]\<rparr>]"
proof -
  have fs: "set (fsm_fields (ex_admin\<lparr>fsm_fields := [''step'', ''state'']\<rparr>)) \<subseteq> {''state'', ''step''}"
    by simp
  have srt: "sort [''step'', ''state''] = [''state'', ''step'']"
    by code_simp
  show ?thesis
    using change_view_transitions[OF ex_available_pure[OF fs, of "''publish''"]]
    by (simp add: srt ex_admin_def ex_avail_def ex_transitions_def ex_step_transitions_def
        default_disallow_transition_def dict_get_default_def dict_get_def)
qed

subsection \<open>The setting \<^verbatim>\<open>FSM_ADMIN_FORCE_PERMIT\<close>\<close>

text \<open>
  Claim C9. Under the hypothesis of C4 on the object's queries: when the setting
  \<^verbatim>\<open>FSM_ADMIN_FORCE_PERMIT\<close> is absent or false, the transitions listed for a field
  are the available ones that have no \<^verbatim>\<open>admin\<close> entry in \<^verbatim>\<open>custom\<close> or a true one,
  so every available transition without the entry is listed; when the setting is true,
  the transitions listed are the available ones with a true \<^verbatim>\<open>admin\<close> entry, so
  those without the entry are left out.
\<close>

theorem admin_force_permit:
  assumes "\<forall>f \<in> set (fsm_fields self). \<exists>m body.
             attrs obj (''get_available_user_'' @ f @ ''_transitions'') = Some (Method m body) \<and>
             body [(''user'', ArgUser (user req))] (inst w) = (Inr (RTransitions (avail f)), inst w)"
  shows "((FSM_ADMIN_FORCE_PERMIT (settings self) = None \<or>
           (\<exists>v. FSM_ADMIN_FORCE_PERMIT (settings self) = Some v \<and> \<not> truthy v)) \<longrightarrow>
          fst (get_fsm_object_transitions self req obj w) =
            Inr (map (\<lambda>f. \<lparr>fsm_field = f,
                   available_transitions =
                     filter (\<lambda>t. case dict_get (custom t) ''admin'' of
                                   None \<Rightarrow> True
                                 | Some v \<Rightarrow> truthy_custom v)
                       (avail f)\<rparr>)
                 (sort (fsm_fields self)))) \<and>
         ((\<exists>v. FSM_ADMIN_FORCE_PERMIT (settings self) = Some v \<and> truthy v) \<longrightarrow>
          fst (get_fsm_object_transitions self req obj w) =
            Inr (map (\<lambda>f. \<lparr>fsm_field = f,
                   available_transitions =
                     filter (\<lambda>t. case dict_get (custom t) ''admin'' of
                                   None \<Rightarrow> False
                                 | Some v \<Rightarrow> truthy_custom v)
                       (avail f)\<rparr>)
                 (sort (fsm_fields self))))"
proof -
  have "\<forall>f \<in> set (sort (fsm_fields self)). \<exists>m body.
             attrs obj (''get_available_user_'' @ f @ ''_transitions'') = Some (Method m body) \<and>
             body [(''user'', ArgUser (user req))] (inst w) = (Inr (RTransitions (avail f)), inst w)"
    using assms by simp
  from object_transitions_loop_pure[OF this, of self]
  have r: "fst (get_fsm_object_transitions self req obj w) =
           Inr (map (\<lambda>f. \<lparr>fsm_field = f,
                          available_transitions = filter (admin_allowed self) (avail f)\<rparr>)
                (sort (fsm_fields self)))"
    by (simp add: get_fsm_object_transitions_def)
  have off: "admin_allowed self =
      (\<lambda>t. case dict_get (custom t) ''admin'' of None \<Rightarrow> True | Some v \<Rightarrow> truthy_custom v)"
    if "FSM_ADMIN_FORCE_PERMIT (settings self) = None \<or>
        (\<exists>v. FSM_ADMIN_FORCE_PERMIT (settings self) = Some v \<and> \<not> truthy v)"
    using that
    by (auto simp: fun_eq_iff admin_allowed_def default_disallow_transition_def
        dict_get_default_def split: option.splits)
  have on: "admin_allowed self =
      (\<lambda>t. case dict_get (custom t) ''admin'' of None \<Rightarrow> False | Some v \<Rightarrow> truthy_custom v)"
    if "\<exists>v. FSM_ADMIN_FORCE_PERMIT (settings self) = Some v \<and> truthy v"
    using that
    by (auto simp: fun_eq_iff admin_allowed_def default_disallow_transition_def
        dict_get_default_def split: option.splits)
  show ?thesis
    using r off on by simp
qed

theorem admin_force_permit_witness:
  "fst (get_fsm_object_transitions ex_admin (ex_request ''publish'') ex_obj ex_world) =
     Inr [\<lparr>fsm_field = ''state'',
           available_transitions =
             [\<lparr>name = ''publish'', source = StateValue (PStr ''reviewed''), custom = []\<rparr>,
              \<lparr>name = ''moderate'', source = WILDCARD, custom = [(''admin'', Val (PBool True))]\<rparr>]\<rparr>] \<and>
   fst (get_fsm_object_transitions
          (ex_admin\<lparr>settings := \<lparr>FSM_ADMIN_FORCE_PERMIT = Some (PBool True)\<rparr>\<rparr>)
          (ex_request ''publish'') ex_obj ex_world) =
     Inr [\<lparr>fsm_field = ''state'',
           available_transitions =
             [\<lparr>name = ''moderate'', source = WILDCARD, custom = [(''admin'', Val (PBool True))]\<rparr>]\<rparr>]"
proof -
  have fs: "set (fsm_fields ex_admin) \<subseteq> {''state'', ''step''}"
    "set (fsm_fields (ex_admin\<lparr>settings := \<lparr>FSM_ADMIN_FORCE_PERMIT = Some (PBool True)\<rparr>\<rparr>))
       \<subseteq> {''state'', ''step''}"
    by (simp_all add: ex_admin_def)
  have off: "FSM_ADMIN_FORCE_PERMIT (settings ex_admin) = None"
    by (simp add: ex_admin_def)
  have on: "\<exists>v. FSM_ADMIN_FORCE_PERMIT
        (settings (ex_admin\<lparr>settings := \<lparr>FSM_ADMIN_FORCE_PERMIT = Some (PBool True)\<rparr>\<rparr>)) = Some v \<and>
        truthy v"
    by simp
  have a: "fst (get_fsm_object_transitions ex_admin (ex_request ''publish'') ex_obj ex_world) =
     Inr [\<lparr>fsm_field = ''state'',
           available_transitions =
             [\<lparr>name = ''publish'', source = StateValue (PStr ''reviewed''), custom = []\<rparr>,
              \<lparr>name = ''moderate'', source = WILDCARD, custom = [(''admin'', Val (PBool True))]\<rparr>]\<rparr>]"
    using admin_force_permit[OF ex_available_pure[OF fs(1), of "''publish''"]] off
    by (simp add: ex_admin_def ex_avail_def ex_transitions_def dict_get_def)
  have b: "fst (get_fsm_object_transitions
          (ex_admin\<lparr>settings := \<lparr>FSM_ADMIN_FORCE_PERMIT = Some (PBool True)\<rparr>\<rparr>)
          (ex_request ''publish'') ex_obj ex_world) =
     Inr [\<lparr>fsm_field = ''state'',
           available_transitions =
             [\<lparr>name = ''moderate'', source = WILDCARD, custom = [(''admin'', Val (PBool True))]\<rparr>]\<rparr>]"
    using admin_force_permit[OF ex_available_pure[OF fs(2), of "''publish''"]] on
    by (simp add: ex_admin_def ex_avail_def ex_transitions_def dict_get_def)
  from a b show ?thesis by simp
qed

subsection \<open>Protected fields are read-only\<close>

lemma count_list_distinct:
  "distinct xs \<Longrightarrow> count_list xs x = (if x \<in> set xs then 1 else 0)"
  by (induction xs) auto

lemma distinct_singleton: "distinct xs \<Longrightarrow> set xs = {x} \<Longrightarrow> xs = [x]"
proof (cases xs)
  case Nil
  assume "set xs = {x}"
  with Nil show ?thesis by simp
next
  case (Cons y ys)
  assume d: "distinct xs" and s: "set xs = {x}"
  from Cons s have y: "y = x" by auto
  from Cons d s y have "set ys \<subseteq> {x}" "x \<notin> set ys" by auto
  then have "ys = []" by (cases ys) auto
  with Cons y show ?thesis by simp
qed

lemma readonly_loop_appends:
  "\<exists>added. readonly_loop self fs ro = ro @ added \<and> distinct added \<and>
     set added =
       {n \<in> set fs. n \<notin> set ro \<and>
          (\<exists>fld. get_field self n = Some fld \<and>
                 truthy (case protected fld of None \<Rightarrow> PBool False | Some v \<Rightarrow> v))}"
proof (induction fs arbitrary: ro)
  case Nil
  then show ?case by simp
next
  case (Cons f fs)
  let ?P = "\<lambda>n. \<exists>fld. get_field self n = Some fld \<and>
                 truthy (case protected fld of None \<Rightarrow> PBool False | Some v \<Rightarrow> v)"
  show ?case
  proof (cases "f \<notin> set ro \<and> ?P f")
    case True
    then have step: "readonly_loop self (f # fs) ro = readonly_loop self fs (ro @ [f])"
      by auto
    from Cons.IH[of "ro @ [f]"] obtain added where
      a: "readonly_loop self fs (ro @ [f]) = (ro @ [f]) @ added" "distinct added"
         "set added = {n \<in> set fs. n \<notin> set (ro @ [f]) \<and> ?P n}"
      by blast
    have "readonly_loop self (f # fs) ro = ro @ (f # added)"
      using step a(1) by simp
    moreover have "distinct (f # added)"
      using a(2,3) by auto
    moreover have "set (f # added) = {n \<in> set (f # fs). n \<notin> set ro \<and> ?P n}"
      using a(3) True by auto
    ultimately show ?thesis by blast
  next
    case False
    then have step: "readonly_loop self (f # fs) ro = readonly_loop self fs ro"
      by (auto split: option.splits)
    from Cons.IH[of ro] obtain added where
      a: "readonly_loop self fs ro = ro @ added" "distinct added"
         "set added = {n \<in> set fs. n \<notin> set ro \<and> ?P n}"
      by blast
    have "set added = {n \<in> set (f # fs). n \<notin> set ro \<and> ?P n}"
      using a(3) False by auto
    with step a(1,2) show ?thesis by auto
  qed
qed

text \<open>
  Claim C5, as the code has it. \<^verbatim>\<open>get_readonly_fields\<close> returns the tuple of the
  superclass followed by the names it adds. Each added name occurs once among them, and
  the added names are the names of \<^verbatim>\<open>fsm_fields\<close> that the tuple of the superclass
  lacks, that are fields of the model and whose field has a true \<^verbatim>\<open>protected\<close>. So a
  name occurs in the result as often as in the tuple of the superclass, and once more
  when it is added: a protected field of \<^verbatim>\<open>fsm_fields\<close> is in the result, exactly once
  unless the superclass lists it several times, and a name that is already read-only,
  not a field of the model or not protected adds nothing.
\<close>

theorem get_readonly_fields_protected:
  "\<exists>added.
     get_readonly_fields self req = super_get_readonly_fields self req @ added \<and>
     distinct added \<and>
     set added =
       {n \<in> set (fsm_fields self). n \<notin> set (super_get_readonly_fields self req) \<and>
          (\<exists>fld. get_field self n = Some fld \<and>
                 truthy (case protected fld of None \<Rightarrow> PBool False | Some v \<Rightarrow> v))} \<and>
     (\<forall>n. count_list (get_readonly_fields self req) n =
            count_list (super_get_readonly_fields self req) n +
            (if n \<in> set added then 1 else 0))"
proof -
  from readonly_loop_appends[of self "fsm_fields self" "super_get_readonly_fields self req"]
  obtain added where
    a: "get_readonly_fields self req = super_get_readonly_fields self req @ added"
       "distinct added"
       "set added =
         {n \<in> set (fsm_fields self). n \<notin> set (super_get_readonly_fields self req) \<and>
            (\<exists>fld. get_field self n = Some fld \<and>
                   truthy (case protected fld of None \<Rightarrow> PBool False | Some v \<Rightarrow> v))}"
    unfolding get_readonly_fields_def by blast
  have "\<forall>n. count_list (get_readonly_fields self req) n =
            count_list (super_get_readonly_fields self req) n +
            (if n \<in> set added then 1 else 0)"
    using a(1,2) by (simp add: count_list_distinct)
  with a show ?thesis by blast
qed

theorem get_readonly_fields_protected_witness:
  "get_readonly_fields ex_admin (ex_request ''publish'') = [''id'', ''state''] \<and>
   count_list (get_readonly_fields ex_admin (ex_request ''publish'')) ''state'' = 1 \<and>
   get_readonly_fields (ex_admin\<lparr>fsm_fields := [''state'', ''title'', ''missing'', ''id'', ''state'']\<rparr>)
     (ex_request ''publish'') = [''id'', ''state'']"
proof -
  from get_readonly_fields_protected[of ex_admin "ex_request ''publish''"]
  obtain added where
    a: "get_readonly_fields ex_admin (ex_request ''publish'') =
          super_get_readonly_fields ex_admin (ex_request ''publish'') @ added"
       "distinct added"
       "set added =
         {n \<in> set (fsm_fields ex_admin).
            n \<notin> set (super_get_readonly_fields ex_admin (ex_request ''publish'')) \<and>
            (\<exists>fld. get_field ex_admin n = Some fld \<and>
                   truthy (case protected fld of None \<Rightarrow> PBool False | Some v \<Rightarrow> v))}"
    by blast
  have "set added = {''state''}"
    unfolding a(3) by (auto simp: ex_admin_def)
  with a(2) have "added = [''state'']"
    by (rule distinct_singleton)
  with a(1) have r1: "get_readonly_fields ex_admin (ex_request ''publish'') = [''id'', ''state'']"
    by (simp add: ex_admin_def)
  have r2: "get_readonly_fields
      (ex_admin\<lparr>fsm_fields := [''state'', ''title'', ''missing'', ''id'', ''state'']\<rparr>)
      (ex_request ''publish'') = [''id'', ''state'']"
    by (simp add: get_readonly_fields_def ex_admin_def)
  from r1 r2 show ?thesis by simp
qed

text \<open>
  The claim as stated fails when the tuple of the superclass already lists the name
  twice: the name of the protected field is skipped as already read-only, and the
  result contains it twice.
\<close>

theorem get_readonly_fields_repeated:
  "get_field ex_admin ''state'' = Some \<lparr>protected = Some (PBool True)\<rparr> \<and>
   fsm_fields (ex_admin\<lparr>super_get_readonly_fields := (\<lambda>req. [''state'', ''state''])\<rparr>) = [''state''] \<and>
   get_readonly_fields (ex_admin\<lparr>super_get_readonly_fields := (\<lambda>req. [''state'', ''state''])\<rparr>)
     (ex_request ''publish'') = [''state'', ''state''] \<and>
   count_list
     (get_readonly_fields (ex_admin\<lparr>super_get_readonly_fields := (\<lambda>req. [''state'', ''state''])\<rparr>)
        (ex_request ''publish'')) ''state'' = 2"
  by (simp add: get_readonly_fields_def ex_admin_def)

subsection \<open>Transitions that ask for a form\<close>

text \<open>
  What the two functions do with a form. When the descriptor resolved for the current
  state has a true \<^verbatim>\<open>form\<close> entry, \<^verbatim>\<open>response_change\<close> answers with the redirect to
  the transition view and changes nothing.
\<close>

lemma response_change_form_redirect:
  assumes "dict_get (POST req) fsm_post_param = Some tn"
    and "tn \<noteq> []"
    and "attrs obj tn = Some tf"
    and "get_fsm_transition (inst w) tf = Inr (Some t)"
    and "truthy_custom (dict_get_default (custom t) ''form'' (Val PNone))"
  shows "response_change flag self req obj w =
      (Inr (HttpResponseRedirect
              (NamedUrl (''admin:'' @ app_label self @ ''_'' @ model_name self @ ''_transition'')
                 [(''object_id'', pk obj), (''transition_name'', PStr tn)])),
       w)"
  using assms
  by (simp add: response_change_def getattr_def get_fsm_transition_custom_def
      transition_view_url_def)

text \<open>
  When the first registered descriptor of the method has a form class, the request is a
  POST and the form is valid with cleaned data \<open>cd\<close>, the view calls the method once,
  with the entries of \<open>cd\<close> as keyword arguments, and calls \<^verbatim>\<open>obj.save()\<close> when the
  call returns.
\<close>

lemma fsm_transition_view_valid_form:
  assumes "attrs obj tn = Some (Method (Some fsm_meta) body)"
    and "transitions fsm_meta = t # ts"
    and "get_fsm_transition_form self t = Inr (FormClass fc)"
    and "http_method req = ''POST''"
    and "clean fc (POST req) (inst w) = (Some cd, d)"
    and "body (map (\<lambda>(k, v). (k, ArgVal v)) cd) d = (r, d')"
  shows "fsm_transition_view self req tn obj w =
      (case r of
         Inl e \<Rightarrow>
           (Inl e,
            \<lparr>inst = d', trace = trace w @ [Called tn (map (\<lambda>(k, v). (k, ArgVal v)) cd)]\<rparr>)
       | Inr _ \<Rightarrow>
           (case save_method obj d' of
              (None, d'') \<Rightarrow>
                (Inr (HttpResponseRedirect
                        (NamedUrl (''admin:'' @ app_label self @ ''_'' @ model_name self @ ''_change'')
                           [(''object_id'', obj_id obj)])),
                 \<lparr>inst = d'',
                  trace = trace w @ [Called tn (map (\<lambda>(k, v). (k, ArgVal v)) cd), Saved]\<rparr>)
            | (Some e, d'') \<Rightarrow>
                (Inl e,
                 \<lparr>inst = d'',
                  trace = trace w @ [Called tn (map (\<lambda>(k, v). (k, ArgVal v)) cd), Saved]\<rparr>)))"
  using assms
  by (simp add: fsm_transition_view_def getattr_def kwargs_of_def change_view_url_def save_def
      split: sum.splits prod.splits option.splits)

text \<open>
  Claim C6 does not hold of the code. The method \<open>approve\<close> has a descriptor for
  \<open>draft\<close> without a form, registered first, and one for \<open>reviewed\<close> with the review
  form. On an instance in state \<open>reviewed\<close> the descriptor resolved for the current
  state has a true \<^verbatim>\<open>form\<close> entry, and \<^verbatim>\<open>response_change\<close> redirects to the
  transition view without calling the method. The view decides on the first registered
  descriptor, finds no form, and calls the method at once, with no keyword argument,
  on the GET request the redirect leads to as on a POST; then it saves the object and
  reports success. No form is built or validated and no cleaned data is passed.
\<close>

theorem fsm_transition_view_skips_form:
  "get_fsm_transition (inst ex_world) ex_approve =
     Inr (Some \<lparr>name = ''approve'', source = StateValue (PStr ''reviewed''),
                custom = [(''form'', FormClass ex_review_form)]\<rparr>) \<and>
   response_change False ex_admin (ex_request ''approve'') ex_obj ex_world =
     (Inr (HttpResponseRedirect
             (NamedUrl ''admin:testapp_adminblogpost_transition''
                [(''object_id'', PInt 1), (''transition_name'', PStr ''approve'')])),
      ex_world) \<and>
   fsm_transition_view ex_admin ((ex_request ''approve'')\<lparr>http_method := ''GET''\<rparr>) ''approve''
       ex_obj ex_world =
     (Inr (HttpResponseRedirect
             (NamedUrl ''admin:testapp_adminblogpost_change'' [(''object_id'', PInt 1)])),
      \<lparr>inst = ''approved'',
       trace = [Called ''approve'' [], Saved,
                Message SUCCESS
                  (''FSM transition '' @ [CHR 0x27] @ ''approve'' @ [CHR 0x27] @ '' succeeded.'')]\<rparr>) \<and>
   fsm_transition_view ex_admin (ex_request ''approve'') ''approve'' ex_obj ex_world =
     (Inr (HttpResponseRedirect
             (NamedUrl ''admin:testapp_adminblogpost_change'' [(''object_id'', PInt 1)])),
      \<lparr>inst = ''approved'',
       trace = [Called ''approve'' [], Saved,
                Message SUCCESS
                  (''FSM transition '' @ [CHR 0x27] @ ''approve'' @ [CHR 0x27] @ '' succeeded.'')]\<rparr>)"
proof -
  let ?t = "\<lparr>name = ''approve'', source = StateValue (PStr ''reviewed''),
             custom = [(''form'', FormClass ex_review_form)]\<rparr> :: string transition"
  have n: "''approve'' \<noteq> []" by simp
  have g: "get_fsm_transition (inst ex_world) ex_approve = Inr (Some ?t)"
    by (simp add: get_fsm_transition_def ex_approve_def ex_meta_def ex_world_def)
  have f: "truthy_custom (dict_get_default (custom ?t) ''form'' (Val PNone))"
    by (simp add: dict_get_default_def dict_get_def)
  have rc: "response_change False ex_admin (ex_request ''approve'') ex_obj ex_world =
     (Inr (HttpResponseRedirect
             (NamedUrl ''admin:testapp_adminblogpost_transition''
                [(''object_id'', PInt 1), (''transition_name'', PStr ''approve'')])),
      ex_world)"
    using response_change_form_redirect[OF ex_post n ex_attrs_simps(13) g f, of False ex_admin]
    by (simp add: ex_admin_def ex_obj_def)
  have tf: "get_fsm_transition_form ex_admin
      \<lparr>name = ''approve'', source = StateValue (PStr ''draft''), custom = []\<rparr> = Inr (Val PNone)"
    by (simp add: get_fsm_transition_form_def dict_get_default_def dict_get_def)
  have v: "fsm_transition_view ex_admin (ex_request ''approve''\<lparr>http_method := hm\<rparr>) ''approve''
       ex_obj ex_world =
     (Inr (HttpResponseRedirect
             (NamedUrl ''admin:testapp_adminblogpost_change'' [(''object_id'', PInt 1)])),
      \<lparr>inst = ''approved'',
       trace = [Called ''approve'' [], Saved,
                Message SUCCESS
                  (''FSM transition '' @ [CHR 0x27] @ ''approve'' @ [CHR 0x27] @ '' succeeded.'')]\<rparr>)"
    for hm
    using tf
    by (simp add: fsm_transition_view_def getattr_def ex_attrs_simps ex_approve_def ex_meta_def
        ex_save change_view_url_def message_user_def fsm_transition_success_msg_def quoted_def
        ex_world_def)
      (simp add: ex_admin_def ex_obj_def)
  have p: "ex_request ''approve''\<lparr>http_method := ''POST''\<rparr> = ex_request ''approve''"
    by (simp add: ex_request_def)
  from g rc v[of "''GET''"] v[of "''POST''", unfolded p] show ?thesis by simp
qed

subsection \<open>The descriptor the transition view uses\<close>

text \<open>
  Claim C7 does not hold of the code. The view takes the first registered descriptor of
  the method (\<^verbatim>\<open>transitions[0]\<close>), whatever the state of the instance, while
  \<^verbatim>\<open>response_change\<close> decides on the descriptor \<^verbatim>\<open>get_fsm_transition\<close> resolves for
  the current state. The method \<open>edit\<close> has a descriptor for \<open>draft\<close> with the rename
  form and one for \<open>reviewed\<close> with the review form. On an instance in state
  \<open>reviewed\<close> the descriptor resolved for the current state is the second, and the
  view renders the form page with the first descriptor and the rename form.
\<close>

theorem fsm_transition_view_first_descriptor:
  "resolve [ex_edit_draft, ex_edit_reviewed] (PStr (inst ex_world)) = Inr ex_edit_reviewed \<and>
   get_fsm_transition (inst ex_world) ex_edit = Inr (Some ex_edit_reviewed) \<and>
   fsm_transition_view ex_admin ((ex_request ''edit'')\<lparr>http_method := ''GET''\<rparr>) ''edit''
       ex_obj ex_world =
     (Inr (Render fsm_transition_form_template
             \<lparr>original = ''reviewed'', ctx_transition = ex_edit_draft,
              transition_form = \<lparr>form_of = ex_rename_form, form_data = None\<rparr>\<rparr>),
      ex_world) \<and>
   ex_edit_draft \<noteq> ex_edit_reviewed \<and>
   form_name ex_rename_form \<noteq> form_name ex_review_form"
proof -
  have r: "resolve [ex_edit_draft, ex_edit_reviewed] (PStr (inst ex_world)) = Inr ex_edit_reviewed"
    by (simp add: ex_edit_draft_def ex_edit_reviewed_def ex_world_def)
  have g: "get_fsm_transition (inst ex_world) ex_edit = Inr (Some ex_edit_reviewed)"
    using r by (simp add: get_fsm_transition_def ex_edit_def ex_meta_def)
  have f: "get_fsm_transition_form ex_admin ex_edit_draft = Inr (FormClass ex_rename_form)"
    by (simp add: get_fsm_transition_form_def dict_get_default_def dict_get_def ex_edit_draft_def)
  have v: "fsm_transition_view ex_admin ((ex_request ''edit'')\<lparr>http_method := ''GET''\<rparr>) ''edit''
       ex_obj ex_world =
     (Inr (Render fsm_transition_form_template
             \<lparr>original = ''reviewed'', ctx_transition = ex_edit_draft,
              transition_form = \<lparr>form_of = ex_rename_form, form_data = None\<rparr>\<rparr>),
      ex_world)"
    using f by (simp add: fsm_transition_view_def getattr_def ex_attrs_simps ex_edit_def
        ex_meta_def ex_request_def ex_world_def)
  have d: "ex_edit_draft \<noteq> ex_edit_reviewed"
    by (simp add: ex_edit_draft_def ex_edit_reviewed_def)
  have n: "form_name ex_rename_form \<noteq> form_name ex_review_form"
    by (simp add: ex_rename_form_def ex_review_form_def)
  from r g v d n show ?thesis by simp
qed

subsection \<open>Attributes that are not transition methods\<close>

lemma not_valid_msg_distinct:
  "fsm_transition_not_valid_msg tn \<noteq> fsm_transition_not_allowed_msg tn"
  "fsm_transition_not_valid_msg tn \<noteq> fsm_transition_error_msg tn txt"
  by (simp_all add: fsm_transition_not_valid_msg_def fsm_transition_not_allowed_msg_def
      fsm_transition_error_msg_def)

lemma calls_of_Called: "calls_of (map (Called nm) kws) = map (Pair nm) kws"
  by (induction kws) simp_all

lemma response_change_new_events:
  assumes "dict_get (POST req) fsm_post_param = Some tn"
    and "tn \<noteq> []"
    and "attrs obj tn = Some tf"
  shows "\<exists>evs. trace (snd (response_change flag self req obj w)) = trace w @ evs \<and>
               Message ERROR (fsm_transition_not_valid_msg tn) \<notin> set evs"
proof (cases "get_fsm_transition_custom (inst w) tf")
  case (Inl e)
  with assms have "trace (snd (response_change flag self req obj w)) = trace w @ []"
    by (simp add: response_change_def getattr_def)
  then show ?thesis by fastforce
next
  case (Inr cust)
  show ?thesis
  proof (cases "truthy_custom (dict_get_default cust ''form'' (Val PNone))")
    case True
    with assms Inr have "trace (snd (response_change flag self req obj w)) = trace w @ []"
      by (simp add: response_change_def getattr_def)
    then show ?thesis by fastforce
  next
    case False
    obtain r w' where i: "invoke_transition flag req tn tf w = (r, w')"
      by (cases "invoke_transition flag req tn tf w")
    from invoke_transition_trace[OF i] obtain kws where
      k: "trace w' = trace w @ map (Called tn) kws" by blast
    obtain r2 w2 where s: "save obj w' = (r2, w2)" by (cases "save obj w'")
    from save_trace[of obj w'] s have t2: "trace w2 = trace w' @ [Saved]" by simp
    let ?tail = "case r of
         Inl e \<Rightarrow>
           if is_TransitionNotAllowed e then [Message ERROR (fsm_transition_not_allowed_msg tn)]
           else if is_ConcurrentTransition e
             then [Message ERROR (fsm_transition_error_msg tn (str_exn e))]
           else []
       | Inr _ \<Rightarrow>
           (case r2 of
              Inl e \<Rightarrow> [Saved]
            | Inr _ \<Rightarrow> [Saved, Message INFO (fsm_transition_success_msg tn)])"
    have "trace (snd (response_change flag self req obj w)) =
        trace w @ (map (Called tn) kws @ ?tail)"
      using k s t2
      by (simp add: response_change_invoke[OF assms Inr False i, of self] message_user_def
          split: sum.splits)
    moreover have "Message ERROR (fsm_transition_not_valid_msg tn) \<notin>
        set (map (Called tn) kws @ ?tail)"
      by (auto simp: not_valid_msg_distinct split: sum.splits)
    ultimately show ?thesis by blast
  qed
qed

lemma try_shapes_first_call:
  assumes "try_shapes nm (Method m body) (kw # rest) w = (r, w')"
  shows "\<exists>kws. trace w' = trace w @ Called nm kw # map (Called nm) kws"
proof -
  obtain r1 w1 where c: "call nm (Method m body) kw w = (r1, w1)"
    by (cases "call nm (Method m body) kw w")
  then have t1: "trace w1 = trace w @ [Called nm kw]"
    by (auto split: prod.splits)
  show ?thesis
  proof (cases "raises_TypeError r1")
    case True
    then obtain e where "r1 = Inl e" "is_TypeError e" by (cases r1) auto
    with assms c have "try_shapes nm (Method m body) rest w1 = (r, w')" by simp
    from try_shapes_trace[OF this] obtain kws where
      "trace w' = trace w1 @ map (Called nm) kws" by blast
    with t1 have "trace w' = trace w @ Called nm kw # map (Called nm) kws" by simp
    then show ?thesis by blast
  next
    case False
    with assms c have "w' = w1" by (cases r1) (auto split: if_splits)
    with t1 have "trace w' = trace w @ Called nm kw # map (Called nm) []" by simp
    then show ?thesis by blast
  qed
qed

text \<open>
  Claim C10. For a POST that names \<open>tn\<close>: the not-valid error message is among the
  events \<^verbatim>\<open>response_change\<close> adds exactly when the object has no attribute \<open>tn\<close>.
  A method of the object that is no transition method has the empty \<^verbatim>\<open>custom\<close>, and
  \<^verbatim>\<open>response_change\<close> calls it: first with the keywords of the first argument shape
  when the logging plugin is detected, with no argument otherwise. The transition view
  answers an attribute without \<^verbatim>\<open>_django_fsm\<close> with a bad-request response and
  changes nothing, so it calls nothing.
\<close>

theorem response_change_invokes_any_method:
  assumes "dict_get (POST req) fsm_post_param = Some tn"
    and "tn \<noteq> []"
  shows "(Message ERROR (fsm_transition_not_valid_msg tn) \<in>
            set (drop (length (trace w)) (trace (snd (response_change flag self req obj w))))
          \<longleftrightarrow> attrs obj tn = None) \<and>
         (\<forall>body. attrs obj tn = Some (Method None body) \<longrightarrow>
            get_fsm_transition_custom (inst w) (Method None body) = Inr [] \<and>
            (\<exists>kws. calls_of (trace (snd (response_change flag self req obj w))) =
                     calls_of (trace w) @
                     (tn, if flag then [(''request'', ArgRequest req), (''by'', ArgUser (user req))]
                          else []) # map (Pair tn) kws)) \<and>
         (\<forall>a req'. attrs obj tn = Some a \<and> django_fsm a = None \<longrightarrow>
            fsm_transition_view self req' tn obj w =
              (Inr (HttpResponseBadRequest (tn @ '' is not a transition method'')), w))"
proof (intro conjI allI impI)
  show "Message ERROR (fsm_transition_not_valid_msg tn) \<in>
            set (drop (length (trace w)) (trace (snd (response_change flag self req obj w))))
          \<longleftrightarrow> attrs obj tn = None"
  proof (cases "attrs obj tn")
    case None
    with assms show ?thesis
      by (simp add: response_change_def getattr_def message_user_def)
  next
    case (Some tf)
    from response_change_new_events[OF assms Some, of flag self w] obtain evs where
      "trace (snd (response_change flag self req obj w)) = trace w @ evs"
      "Message ERROR (fsm_transition_not_valid_msg tn) \<notin> set evs"
      by blast
    with Some show ?thesis by simp
  qed
next
  fix body
  assume a: "attrs obj tn = Some (Method None body)"
  show "get_fsm_transition_custom (inst w) (Method None body) = Inr []"
    by (simp add: get_fsm_transition_custom_def get_fsm_transition_def)
next
  fix body
  assume a: "attrs obj tn = Some (Method None body)"
  let ?first = "if flag then [(''request'', ArgRequest req), (''by'', ArgUser (user req))] else []"
  have c: "get_fsm_transition_custom (inst w) (Method None body) = Inr []"
    by (simp add: get_fsm_transition_custom_def get_fsm_transition_def)
  obtain r w' where i: "invoke_transition flag req tn (Method None body) w = (r, w')"
    by (cases "invoke_transition flag req tn (Method None body) w")
  have "\<exists>kws. trace w' = trace w @ Called tn ?first # map (Called tn) kws"
  proof (cases flag)
    case True
    with i have "try_shapes tn (Method None body)
        ([(''request'', ArgRequest req), (''by'', ArgUser (user req))] #
         [[(''by'', ArgUser (user req))], []]) w = (r, w')"
      by (simp add: invoke_transition_def arg_shapes_def)
    from try_shapes_first_call[OF this] True show ?thesis by simp
  next
    case False
    with i have "trace w' = trace w @ Called tn [] # map (Called tn) []"
      by (auto simp: invoke_transition_def split: prod.splits sum.splits)
    with False show ?thesis by auto
  qed
  then obtain kws where k: "trace w' = trace w @ Called tn ?first # map (Called tn) kws"
    by blast
  have "calls_of (trace (snd (response_change flag self req obj w))) = calls_of (trace w')"
    by (simp add: response_change_invoke[OF assms a c no_form_empty i, of self] finish_calls)
  with k have "calls_of (trace (snd (response_change flag self req obj w))) =
      calls_of (trace w) @ (tn, ?first) # map (Pair tn) kws"
    by (simp add: calls_of_append calls_of_Called)
  then show "\<exists>kws. calls_of (trace (snd (response_change flag self req obj w))) =
      calls_of (trace w) @ (tn, ?first) # map (Pair tn) kws"
    by blast
next
  fix a req'
  assume "attrs obj tn = Some a \<and> django_fsm a = None"
  then show "fsm_transition_view self req' tn obj w =
      (Inr (HttpResponseBadRequest (tn @ '' is not a transition method'')), w)"
    by (simp add: fsm_transition_view_def getattr_def)
qed


theorem response_change_invokes_any_method_witness:
  "attrs ex_obj ''delete'' = Some ex_delete \<and>
   django_fsm ex_delete = None \<and>
   calls_of (trace (snd (response_change False ex_admin (ex_request ''delete'') ex_obj ex_world))) =
     [(''delete'', [])] \<and>
   Message ERROR (fsm_transition_not_valid_msg ''delete'') \<notin>
     set (trace (snd (response_change False ex_admin (ex_request ''delete'') ex_obj ex_world))) \<and>
   fsm_transition_view ex_admin (ex_request ''delete'') ''delete'' ex_obj ex_world =
     (Inr (HttpResponseBadRequest ''delete is not a transition method''), ex_world) \<and>
   Message ERROR (fsm_transition_not_valid_msg ''archive'') \<in>
     set (trace (snd (response_change False ex_admin (ex_request ''archive'') ex_obj ex_world)))"
proof -
  have n: "''delete'' \<noteq> []" "''archive'' \<noteq> []" by simp_all
  have d: "django_fsm ex_delete = None"
    by (simp add: ex_delete_def)
  have c: "get_fsm_transition_custom (inst ex_world) ex_delete = Inr []"
    by (simp add: get_fsm_transition_custom_def get_fsm_transition_def ex_delete_def)
  have i: "invoke_transition False (ex_request ''delete'') ''delete'' ex_delete ex_world =
      (Inr (), \<lparr>inst = ''deleted'', trace = [Called ''delete'' []]\<rparr>)"
    by (simp add: invoke_transition_def ex_delete_def ex_world_def)
  have rc: "response_change False ex_admin (ex_request ''delete'') ex_obj ex_world =
      (Inr (HttpResponseRedirect (Url ''/admin/testapp/adminblogpost/1/change/'')),
       \<lparr>inst = ''deleted'',
        trace = [Called ''delete'' [], Saved,
                 Message INFO (fsm_transition_success_msg ''delete'')]\<rparr>)"
    using response_change_invoke[OF ex_post n(1) ex_attrs_simps(8) c no_form_empty i, of ex_admin]
    by (simp add: ex_response ex_save message_user_def)
  have t0: "trace ex_world = []" by (simp add: ex_world_def)
  have a: "attrs ex_obj ''archive'' = None"
    by (simp add: ex_obj_def ex_attrs_def)
  have p1: "Message ERROR (fsm_transition_not_valid_msg ''delete'') \<notin>
     set (trace (snd (response_change False ex_admin (ex_request ''delete'') ex_obj ex_world)))"
    using response_change_invokes_any_method[OF ex_post n(1), of ex_world False ex_admin ex_obj]
      ex_attrs_simps(8)
    by (simp add: t0)
  have p2: "fsm_transition_view ex_admin (ex_request ''delete'') ''delete'' ex_obj ex_world =
     (Inr (HttpResponseBadRequest ''delete is not a transition method''), ex_world)"
    using response_change_invokes_any_method[OF ex_post n(1), of ex_world False ex_admin ex_obj]
      ex_attrs_simps(8) d
    by simp
  have p3: "Message ERROR (fsm_transition_not_valid_msg ''archive'') \<in>
     set (trace (snd (response_change False ex_admin (ex_request ''archive'') ex_obj ex_world)))"
    using response_change_invokes_any_method[OF ex_post n(2), of ex_world False ex_admin ex_obj] a
    by (simp add: t0)
  have p4: "calls_of (trace (snd (response_change False ex_admin (ex_request ''delete'') ex_obj
      ex_world))) = [(''delete'', [])]"
    by (simp add: rc)
  from ex_attrs_simps(8) d p1 p2 p3 p4 show ?thesis by simp
qed

end
